theory Spec2Isabelle
  imports Complex_Main "HOL-Library.Word"
begin

unbundle bit_operations_syntax

section \<open>Strings and bytes\<close>

text \<open>
  A JavaScript string is a sequence of UTF-16 code units; it is modelled as the list of
  its code units, so that \<open>===\<close> on strings is equality of lists and \<open>.length\<close> is
  \<open>length\<close>. ASCII literals of the source are written \<open>ascii ''...''\<close>; the
  Chinese messages of the source are written out as their code units.
  A \<open>Uint8Array\<close> is a list of 8-bit words.
\<close>

type_synonym jsstring = "nat list"
type_synonym byte = "8 word"

definition ascii :: "string \<Rightarrow> jsstring" where
  "ascii s = map of_char s"

text \<open>\<open>Array.prototype.join\<close> on an array of strings.\<close>

fun join :: "jsstring \<Rightarrow> jsstring list \<Rightarrow> jsstring" where
  "join sep [] = []"
| "join sep [x] = x"
| "join sep (x # y # ys) = x @ sep @ join sep (y # ys)"

section \<open>JavaScript helpers\<close>

text \<open>
  \<open>String.prototype.includes\<close> (here \<open>str_includes\<close>): the needle occurs as a contiguous run of code units.
\<close>

fun str_includes :: "jsstring \<Rightarrow> jsstring \<Rightarrow> bool" where
  "str_includes [] needle = (needle = [])"
| "str_includes (x # xs) needle = (take (length needle) (x # xs) = needle \<or> str_includes xs needle)"

text \<open>
  Truthiness of a value of type \<open>string | null | undefined\<close>: \<open>null\<close>, \<open>undefined\<close>
  (both \<open>None\<close>) and the empty string are falsy.
\<close>

fun truthy :: "jsstring option \<Rightarrow> bool" where
  "truthy None = False"
| "truthy (Some s) = (s \<noteq> [])"

text \<open>\<open>xs.filter(Boolean)\<close> on an array of optional strings.\<close>

fun filterBoolean :: "jsstring option list \<Rightarrow> jsstring list" where
  "filterBoolean [] = []"
| "filterBoolean (None # xs) = filterBoolean xs"
| "filterBoolean (Some s # xs) = (if s = [] then filterBoolean xs else s # filterBoolean xs)"

text \<open>
  The loop \<open>for (const item of xs) { if (item !== null) { v = item; break; } }\<close> started
  with \<open>v = null\<close>: the first entry that is not \<open>null\<close>.
\<close>

fun firstSome :: "'a option list \<Rightarrow> 'a option" where
  "firstSome [] = None"
| "firstSome (None # xs) = firstSome xs"
| "firstSome (Some x # xs) = Some x"

text \<open>
  A JavaScript \<open>Set\<close> keeps its members in insertion order without repetition; it is
  modelled as the list of its members. \<open>newSet xs\<close> is \<open>new Set(xs)\<close> and
  \<open>Array.from(new Set(xs))\<close> alike.
\<close>

definition setAdd :: "'a \<Rightarrow> 'a list \<Rightarrow> 'a list" where
  "setAdd x s = (if x \<in> set s then s else s @ [x])"

definition newSet :: "'a list \<Rightarrow> 'a list" where
  "newSet xs = fold setAdd xs []"

section \<open>Name codec: \<open>readDnsName\<close>\<close>

text \<open>
  Every \<open>throw new Error(...)\<close> of \<open>readDnsName\<close> is one constructor, in the order
  of the source. The specification calls all of them \<open>MalformedName\<close> errors.
\<close>

datatype dns_error =
    SafetyLimitExceeded
  | NameOutOfRange
  | PointerTruncated
  | PointerOutOfRange
  | IllegalLabelLength
  | LabelOutOfRange

text \<open>
  The local variables of \<open>readDnsName\<close>. The source's \<open>length\<close> is the field
  \<open>nlength\<close> (the name \<open>length\<close> is taken by lists).
\<close>

record name_cursor =
  labels :: "jsstring list"
  nlength :: nat
  jumped :: bool
  currentOffset :: nat
  safety :: nat

definition readLabel :: "byte list \<Rightarrow> nat \<Rightarrow> nat \<Rightarrow> jsstring" where
  "readLabel message start len = map (\<lambda>i. unat (message ! (start + i))) [0..<len]"

text \<open>
  The \<open>while (true)\<close> loop. One unfolding is one iteration. The loop is left either by
  a \<open>throw\<close> (\<open>Some e\<close>) or by \<open>break\<close> (\<open>None\<close>); the function returns how it was
  left together with the local variables at that point. Reading \<open>message[i]\<close> beyond
  the array gives \<open>undefined\<close> in JavaScript: the first read is guarded by the range
  check before it, the second one (\<open>nextByte\<close>) is the explicit \<open>undefined\<close> test.
\<close>

function readDnsName_loop :: "byte list \<Rightarrow> name_cursor \<Rightarrow> dns_error option \<times> name_cursor" where
  "readDnsName_loop message c =
     (if safety c > length message then (Some SafetyLimitExceeded, c)
      else if currentOffset c \<ge> length message
        then (Some NameOutOfRange, c\<lparr>safety := safety c + 1\<rparr>)
      else if (message ! currentOffset c) AND 0xC0 = 0xC0 then
        (if currentOffset c + 1 \<ge> length message
           then (Some PointerTruncated, c\<lparr>safety := safety c + 1\<rparr>)
         else if push_bit 8 (unat ((message ! currentOffset c) AND 0x3F))
                   OR unat (message ! (currentOffset c + 1)) \<ge> length message
           then (Some PointerOutOfRange,
                 c\<lparr>safety := safety c + 1,
                   nlength := (if jumped c then nlength c else nlength c + 2)\<rparr>)
         else readDnsName_loop message
                (c\<lparr>safety := safety c + 1,
                   nlength := (if jumped c then nlength c else nlength c + 2),
                   currentOffset := push_bit 8 (unat ((message ! currentOffset c) AND 0x3F))
                                      OR unat (message ! (currentOffset c + 1)),
                   jumped := True\<rparr>))
      else if message ! currentOffset c = 0
        then (None, c\<lparr>safety := safety c + 1,
                       nlength := (if jumped c then nlength c else nlength c + 1)\<rparr>)
      else if unat (message ! currentOffset c) > 63
        then (Some IllegalLabelLength, c\<lparr>safety := safety c + 1\<rparr>)
      else if currentOffset c + 1 + unat (message ! currentOffset c) > length message
        then (Some LabelOutOfRange, c\<lparr>safety := safety c + 1\<rparr>)
      else readDnsName_loop message
             (c\<lparr>safety := safety c + 1,
                labels := labels c @
                  [readLabel message (currentOffset c + 1) (unat (message ! currentOffset c))],
                currentOffset := currentOffset c + 1 + unat (message ! currentOffset c),
                nlength := (if jumped c then nlength c
                            else nlength c + (1 + unat (message ! currentOffset c)))\<rparr>))"
  by pat_completeness auto
termination
  by (relation "measure (\<lambda>(message, c). Suc (length message) - safety c)") auto

declare readDnsName_loop.simps [simp del]

definition name_cursor_init :: "nat \<Rightarrow> name_cursor" where
  "name_cursor_init offset =
     \<lparr>labels = [], nlength = 0, jumped = False, currentOffset = offset, safety = 0\<rparr>"

record dns_name =
  name :: jsstring
  consumed :: nat

text \<open>The returned object \<open>{ name, length }\<close>; its \<open>length\<close> is the field \<open>consumed\<close>.\<close>

definition readDnsName :: "byte list \<Rightarrow> nat \<Rightarrow> dns_error + dns_name" where
  "readDnsName message offset =
     (case readDnsName_loop message (name_cursor_init offset) of
        (Some e, c) \<Rightarrow> Inl e
      | (None, c) \<Rightarrow> Inr \<lparr>name = join (ascii ''.'') (labels c), consumed = nlength c\<rparr>)"

text \<open>
  A compression pointer stored at position \<open>a\<close> whose 14-bit target is \<open>b\<close>, both
  inside the buffer.
\<close>

definition pointer_at :: "byte list \<Rightarrow> nat \<Rightarrow> nat \<Rightarrow> bool" where
  "pointer_at message a b \<longleftrightarrow>
     a + 1 < length message \<and> (message ! a) AND 0xC0 = 0xC0 \<and>
     push_bit 8 (unat ((message ! a) AND 0x3F)) OR unat (message ! (a + 1)) = b \<and>
     b < length message"

text \<open>
  The number of bytes a name occupies in the stream when read from \<open>pos\<close> without
  following any pointer: labels up to and including the root label, or up to and
  including the two bytes of the first pointer.
\<close>

function bytesBeforeJump :: "byte list \<Rightarrow> nat \<Rightarrow> nat" where
  "bytesBeforeJump message pos =
     (if pos \<ge> length message then 0
      else if (message ! pos) AND 0xC0 = 0xC0 then 2
      else if message ! pos = 0 then 1
      else 1 + unat (message ! pos) + bytesBeforeJump message (pos + 1 + unat (message ! pos)))"
  by pat_completeness auto
termination
  by (relation "measure (\<lambda>(message, pos). length message - pos)") auto

declare bytesBeforeJump.simps [simp del]

section \<open>Provider results\<close>

datatype DohRequestMode = ModeJson | ModeWire

datatype DohResponseFormat = FormatJson | FormatWire | FormatText | FormatUnknown

text \<open>
  The field \<open>raw\<close> has type \<open>unknown\<close>. The program stores in it a parsed JSON body
  (of the abstract type \<open>'j\<close>), \<open>null\<close>, a text snippet, or the object built by
  \<open>createDnsMessageRaw\<close> (content type and base64 text); or leaves it out.
\<close>

datatype 'j raw_payload =
    RawAbsent
  | RawNull
  | RawJson 'j
  | RawText jsstring
  | RawDnsMessage "jsstring option" jsstring

text \<open>
  \<open>number | null\<close> and \<open>string | null\<close> fields are options, and so are the optional
  fields (\<open>None\<close> is \<open>null\<close> or an absent field).
\<close>

record 'j DohBaseResult =
  status :: "nat option"
  ok :: bool
  ips :: "jsstring list"
  latency_ms :: "int option"
  response_format :: "DohResponseFormat option"
  content_type :: "jsstring option"
  raw :: "'j raw_payload"
  error :: "jsstring option"

record 'j DohProviderModeResult = "'j DohBaseResult" +
  mode :: DohRequestMode

record 'j DohProviderResult = "'j DohBaseResult" +
  attempted_formats :: "DohRequestMode list"
  mode_results :: "'j DohProviderModeResult list option"

text \<open>
  \<open>EchProviderResult\<close>. Its fields carry the prefix \<open>ech_\<close> where the name is taken
  by \<open>DohBaseResult\<close> (and \<open>record\<close> is a keyword). The optional \<open>mode_results\<close> is
  never set by the program and is left out.
\<close>

record 'j EchProviderResult =
  found :: bool
  ech_record :: "jsstring option"
  ech_status :: "nat option"
  ech_latency_ms :: "int option"
  ech_attempted_formats :: "DohRequestMode list"
  ech_response_format :: "DohResponseFormat option"
  ech_content_type :: "jsstring option"
  ech_raw :: "'j raw_payload"
  ech_error :: "jsstring option"

section \<open>Failure combiner\<close>

text \<open>The default error texts of \<open>combineDohFailures\<close> and \<open>combineEchFailures\<close>.\<close>

definition msg_doh_failed :: jsstring where
  "msg_doh_failed =
     ascii ''DoH '' @ [0x67E5, 0x8BE2, 0x5931, 0x8D25, 0x3002]"

definition msg_https_failed :: jsstring where
  "msg_https_failed =
     ascii ''HTTPS '' @ [0x8BB0, 0x5F55, 0x67E5, 0x8BE2, 0x5931, 0x8D25, 0x3002]"

text \<open>\<open>format && format !== "unknown"\<close>\<close>

fun knownFormat :: "DohResponseFormat option \<Rightarrow> bool" where
  "knownFormat None = False"
| "knownFormat (Some f) = (f \<noteq> FormatUnknown)"

definition combineDohFailures :: "'j DohProviderModeResult list \<Rightarrow> 'j DohProviderResult" where
  "combineDohFailures results =
     (if length results = 0 then
        \<lparr>status = None, ok = False, ips = [], latency_ms = None,
         response_format = Some FormatUnknown, content_type = None, raw = RawAbsent,
         error = Some msg_doh_failed, attempted_formats = [], mode_results = Some []\<rparr>
      else
        let lst = last results;
            status' = (if status lst = None
                       then firstSome (map status (rev results)) else status lst);
            latency = (if latency_ms lst = None
                       then firstSome (map latency_ms (rev results)) else latency_ms lst);
            responseFormat =
              (if \<not> knownFormat (response_format lst)
               then (case find knownFormat (map response_format results) of
                       Some f \<Rightarrow> f | None \<Rightarrow> Some FormatUnknown)
               else response_format lst);
            contentType =
              (if \<not> truthy (content_type lst)
               then (case find truthy (map content_type results) of
                       Some t \<Rightarrow> t | None \<Rightarrow> None)
               else content_type lst);
            errors = filterBoolean (map error results)
        in \<lparr>status = status', ok = False,
            ips = newSet (concat (map ips results)),
            latency_ms = latency,
            response_format = responseFormat,
            content_type = contentType,
            raw = raw lst,
            error = Some (if length errors > 0 then join (ascii '' | '') errors
                          else msg_doh_failed),
            attempted_formats = map mode results,
            mode_results = Some results\<rparr>)"

text \<open>
  \<open>combineEchFailures\<close> starts from a copy of the last attempt. On an empty array the
  copy is the empty object, whose fields all read \<open>undefined\<close>; the program never calls
  it so.
\<close>

definition combineEchFailures :: "'j EchProviderResult list \<Rightarrow> 'j EchProviderResult" where
  "combineEchFailures results =
     (let merged = (case results of
                      [] \<Rightarrow> \<lparr>found = False, ech_record = None, ech_status = None,
                             ech_latency_ms = None, ech_attempted_formats = [],
                             ech_response_format = None, ech_content_type = None,
                             ech_raw = RawAbsent, ech_error = None\<rparr>
                    | _ \<Rightarrow> last results);
          errors = filterBoolean (map ech_error results)
      in merged
         \<lparr>ech_status := (if ech_status merged = None
                          then firstSome (map ech_status (rev results)) else ech_status merged),
          ech_latency_ms := (if ech_latency_ms merged = None
                          then firstSome (map ech_latency_ms (rev results))
                          else ech_latency_ms merged),
          ech_attempted_formats := newSet (concat (map ech_attempted_formats results)),
          ech_response_format :=
            (if \<not> knownFormat (ech_response_format merged)
             then (case find knownFormat (map ech_response_format results) of
                     Some f \<Rightarrow> f | None \<Rightarrow> ech_response_format merged)
             else ech_response_format merged),
          ech_content_type :=
            (if \<not> truthy (ech_content_type merged)
             then (case find truthy (map ech_content_type results) of
                     Some t \<Rightarrow> t | None \<Rightarrow> None)
             else ech_content_type merged),
          ech_error := Some (if length errors > 0 then join (ascii '' | '') errors
                             else msg_https_failed),
          found := list_ex found results,
          ech_record := (case find truthy (map ech_record results) of
                           Some r \<Rightarrow> r | None \<Rightarrow> None)\<rparr>)"

text \<open>
  The rules of the specification, section 4.5, for the response shape and the content
  type: the first shape that is not \<open>unknown\<close>, and the first content type that is not
  \<open>null\<close>, across all attempts in forward order.
\<close>

definition firstKnownFormat :: "DohResponseFormat option list \<Rightarrow> DohResponseFormat option" where
  "firstKnownFormat fs =
     (case find knownFormat fs of Some f \<Rightarrow> f | None \<Rightarrow> Some FormatUnknown)"

definition firstContentType :: "jsstring option list \<Rightarrow> jsstring option" where
  "firstContentType ts = firstSome ts"

text \<open>
  Two failed attempts against one endpoint, used as a concrete input: the JSON-mode
  request was answered with status 404 and a text page, the wire-mode request with
  status 200 and a DNS message holding no address.
\<close>

definition example_text_attempt :: "unit DohProviderModeResult" where
  "example_text_attempt =
     \<lparr>status = Some 404, ok = False, ips = [], latency_ms = Some 12,
      response_format = Some FormatText, content_type = Some (ascii ''text/html''),
      raw = RawText (ascii ''Not Found''), error = Some (ascii ''text response''),
      mode = ModeJson\<rparr>"

definition example_wire_attempt :: "unit DohProviderModeResult" where
  "example_wire_attempt =
     \<lparr>status = Some 200, ok = False, ips = [], latency_ms = Some 15,
      response_format = Some FormatWire,
      content_type = Some (ascii ''application/dns-message''),
      raw = RawDnsMessage (Some (ascii ''application/dns-message'')) (ascii ''AAA=''),
      error = Some (ascii ''no records''), mode = ModeWire\<rparr>"

definition example_ech_text_attempt :: "unit EchProviderResult" where
  "example_ech_text_attempt =
     \<lparr>found = False, ech_record = None, ech_status = None, ech_latency_ms = None,
      ech_attempted_formats = [ModeJson], ech_response_format = Some FormatUnknown,
      ech_content_type = None, ech_raw = RawAbsent, ech_error = Some (ascii ''timeout'')\<rparr>"

definition example_ech_wire_attempt :: "unit EchProviderResult" where
  "example_ech_wire_attempt =
     \<lparr>found = False, ech_record = None, ech_status = Some 404, ech_latency_ms = Some 9,
      ech_attempted_formats = [ModeWire], ech_response_format = Some FormatText,
      ech_content_type = Some (ascii ''text/plain''), ech_raw = RawText (ascii ''nope''),
      ech_error = Some (ascii ''text response'')\<rparr>"

section \<open>Comparison engine\<close>

subsection \<open>Texts of the notes and messages\<close>

definition note_both_absent :: jsstring where
  "note_both_absent =
     ascii '' '' @ [0x548C, 0x76EE, 0x6807] @ ascii '' DoH '' @ [0x5747, 0x672A, 0x8FD4,
     0x56DE] @ ascii '' ECH '' @ [0x914D, 0x7F6E, 0x3002]"

definition note_target_absent_pre :: jsstring where
  "note_target_absent_pre =
     [0x76EE, 0x6807] @ ascii '' DoH '' @ [0x672A, 0x8FD4, 0x56DE] @ ascii '' ECH '' @
     [0x914D, 0x7F6E, 0xFF0C, 0x4F46] @ ascii '' ''"

definition note_target_absent_post :: jsstring where
  "note_target_absent_post =
     ascii '' '' @ [0x8FD4, 0x56DE, 0x4E86, 0x914D, 0x7F6E, 0x3002]"

definition note_reference_absent :: jsstring where
  "note_reference_absent =
     ascii '' '' @ [0x672A, 0x8FD4, 0x56DE] @ ascii '' ECH '' @ [0x914D, 0x7F6E, 0xFF0C,
     0x65E0, 0x6CD5, 0x6BD4, 0x5BF9, 0x3002]"

definition note_compare_pre :: jsstring where
  "note_compare_pre =
     [0x76EE, 0x6807] @ ascii '' DoH '' @ [0x4E0E] @ ascii '' ''"

definition note_equal_post :: jsstring where
  "note_equal_post =
     ascii '' '' @ [0x7684] @ ascii '' ECH '' @ [0x914D, 0x7F6E, 0x4E00, 0x81F4, 0x3002]"

definition note_unequal_post :: jsstring where
  "note_unequal_post =
     ascii '' '' @ [0x7684] @ ascii '' ECH '' @ [0x914D, 0x7F6E, 0x4E0D, 0x4E00, 0x81F4,
     0x3002]"

definition msg_target_query_failed :: jsstring where
  "msg_target_query_failed =
     [0x76EE, 0x6807] @ ascii '' DoH '' @ [0x670D, 0x52A1, 0x67E5, 0x8BE2, 0x5931, 0x8D25,
     0x3002]"

definition msg_all_match :: jsstring where
  "msg_all_match =
     [0x76EE, 0x6807] @ ascii '' DoH '' @ [0x670D, 0x52A1, 0x8FD4, 0x56DE, 0x7684, 0x7ED3,
     0x679C, 0x4E0E] @ ascii '' Cloudflare '' @ [0x548C] @ ascii '' Google '' @ [0x5B8C,
     0x5168, 0x4E00, 0x81F4, 0x3002]"

definition msg_matches_cloudflare :: jsstring where
  "msg_matches_cloudflare =
     [0x76EE, 0x6807] @ ascii '' DoH '' @ [0x670D, 0x52A1, 0x4E0E] @ ascii '' Cloudflare ''
     @ [0x7ED3, 0x679C, 0x4E00, 0x81F4, 0xFF0C, 0x4F46, 0x4E0E] @ ascii '' Google '' @
     [0x4E0D, 0x5B8C, 0x5168, 0x4E00, 0x81F4, 0x3002]"

definition msg_matches_google :: jsstring where
  "msg_matches_google =
     [0x76EE, 0x6807] @ ascii '' DoH '' @ [0x670D, 0x52A1, 0x4E0E] @ ascii '' Google '' @
     [0x7ED3, 0x679C, 0x4E00, 0x81F4, 0xFF0C, 0x4F46, 0x4E0E] @ ascii '' Cloudflare '' @
     [0x4E0D, 0x5B8C, 0x5168, 0x4E00, 0x81F4, 0x3002]"

definition msg_mismatch :: jsstring where
  "msg_mismatch =
     [0x76EE, 0x6807] @ ascii '' DoH '' @ [0x670D, 0x52A1, 0x8FD4, 0x56DE, 0x7684, 0x7ED3,
     0x679C, 0x4E0E] @ ascii '' Cloudflare '' @ [0x548C] @ ascii '' Google '' @ [0x5747,
     0x4E0D, 0x4E00, 0x81F4, 0x3002]"

definition msg_ech_inconsistent :: jsstring where
  "msg_ech_inconsistent =
     ascii '' '' @ [0x68C0, 0x6D4B, 0x5230, 0x76EE, 0x6807] @ ascii '' DoH '' @ [0x8FD4,
     0x56DE, 0x7684] @ ascii '' ECH '' @ [0x914D, 0x7F6E, 0x4E0E, 0x6743, 0x5A01, 0x89E3,
     0x6790, 0x4E0D, 0x4E00, 0x81F4, 0xFF0C, 0x53EF, 0x80FD, 0x5B58, 0x5728, 0x7BE1,
     0x6539, 0x3002]"

definition msg_ech_consistent :: jsstring where
  "msg_ech_consistent =
     ascii '' '' @ [0x540C, 0x65F6, 0x786E, 0x8BA4] @ ascii '' ECH '' @ [0x914D, 0x7F6E,
     0x4E0E, 0x6743, 0x5A01, 0x89E3, 0x6790, 0x4E00, 0x81F4, 0x3002]"

subsection \<open>IP set equality\<close>

fun allIn :: "'a list \<Rightarrow> 'a list \<Rightarrow> bool" where
  "allIn [] b = True"
| "allIn (x # xs) b = (if x \<notin> set b then False else allIn xs b)"

text \<open>\<open>setsAreEqual\<close>: equal sizes, and every member of \<open>a\<close> is in \<open>b\<close>.\<close>

definition setsAreEqual :: "'a list \<Rightarrow> 'a list \<Rightarrow> bool" where
  "setsAreEqual a b = (if length a \<noteq> length b then False else allIn a b)"

subsection \<open>ECH comparison\<close>

text \<open>
  \<open>computeEchMatch\<close> pushes one note onto the array \<open>notes\<close> and returns the
  three-valued match; the model returns the match together with the new array.
  \<open>!target\<close> on a \<open>string | null\<close> holds for \<open>null\<close> and for the empty string.
\<close>

definition computeEchMatch ::
  "jsstring option \<Rightarrow> jsstring option \<Rightarrow> jsstring list \<Rightarrow> jsstring
     \<Rightarrow> bool option \<times> jsstring list" where
  "computeEchMatch target reference notes_in label =
     (if \<not> truthy target \<and> \<not> truthy reference
        then (None, notes_in @ [label @ note_both_absent])
      else if \<not> truthy target
        then (Some False, notes_in @ [note_target_absent_pre @ label @ note_target_absent_post])
      else if \<not> truthy reference
        then (None, notes_in @ [label @ note_reference_absent])
      else if target = reference
        then (Some True, notes_in @ [note_compare_pre @ label @ note_equal_post])
      else (Some False, notes_in @ [note_compare_pre @ label @ note_unequal_post]))"

record 'j DohEchComparison =
  cmp_target :: "'j EchProviderResult"
  cmp_cloudflare :: "'j EchProviderResult"
  cmp_google :: "'j EchProviderResult"
  ech_matches_cloudflare :: "bool option"
  ech_matches_google :: "bool option"
  consistent :: "bool option"
  cmp_notes :: "jsstring list"

text \<open>
  \<open>runDohEchComparison\<close> from the point where the three provider queries have
  settled. The arguments are the three provider results and the values of
  \<open>extractEchConfigString\<close> for them (\<open>targetEch\<close>, \<open>cloudflareEch\<close>, \<open>googleEch\<close>).
  The three results are objects, so the early \<open>return null\<close> is never taken.
  The field \<open>notes\<close> of the result is \<open>cmp_notes\<close>.
\<close>

definition runDohEchComparison ::
  "'j EchProviderResult \<Rightarrow> 'j EchProviderResult \<Rightarrow> 'j EchProviderResult
     \<Rightarrow> jsstring option \<Rightarrow> jsstring option \<Rightarrow> jsstring option
     \<Rightarrow> 'j DohEchComparison option" where
  "runDohEchComparison targetResult cloudflareResult googleResult
       targetEch cloudflareEch googleEch =
     (let (matchesCloudflare, notes1) =
            computeEchMatch targetEch cloudflareEch [] (ascii ''Cloudflare'');
          (matchesGoogle, notes2) =
            computeEchMatch targetEch googleEch notes1 (ascii ''Google'');
          consistent' =
            (if matchesCloudflare \<noteq> None \<and> matchesGoogle \<noteq> None
               then Some (matchesCloudflare = Some True \<and> matchesGoogle = Some True)
             else if matchesCloudflare \<noteq> None \<or> matchesGoogle \<noteq> None
               then (if matchesCloudflare = Some False \<or> matchesGoogle = Some False
                     then Some False else None)
             else None)
      in Some \<lparr>cmp_target = targetResult, cmp_cloudflare = cloudflareResult,
               cmp_google = googleResult,
               ech_matches_cloudflare = matchesCloudflare,
               ech_matches_google = matchesGoogle,
               consistent = consistent', cmp_notes = notes2\<rparr>)"

subsection \<open>A-record status derivation\<close>

datatype DohStatus = StatusSuccess | StatusFailure | StatusPartialMatch

record 'j DohApiResponse =
  api_status :: DohStatus
  api_message :: jsstring
  details_target :: "'j DohProviderResult"
  details_cloudflare :: "'j DohProviderResult"
  details_google :: "'j DohProviderResult"
  matches_cloudflare :: bool
  matches_google :: bool
  ech_comparison :: "'j DohEchComparison option"

text \<open>The text appended to the message after the status derivation (lines 201 to 207).\<close>

definition echMessageSuffix :: "'j DohEchComparison option \<Rightarrow> jsstring" where
  "echMessageSuffix echComparison =
     (case echComparison of
        None \<Rightarrow> []
      | Some c \<Rightarrow>
          if consistent c = Some False then msg_ech_inconsistent
          else if consistent c = Some True then msg_ech_consistent
          else [])"

text \<open>
  \<open>runDohCheck\<close> from the point where the provider queries and the ECH comparison
  have settled (lines 174 to 219): the arguments are \<open>details.target\<close>,
  \<open>details.cloudflare\<close>, \<open>details.google\<close> and the value of
  \<open>runDohEchComparison\<close>.
\<close>

definition runDohCheck ::
  "'j DohProviderResult \<Rightarrow> 'j DohProviderResult \<Rightarrow> 'j DohProviderResult
     \<Rightarrow> 'j DohEchComparison option \<Rightarrow> 'j DohApiResponse" where
  "runDohCheck targetResult cloudflareResult googleResult echComparison =
     (let matchesCloudflare =
            (ok targetResult \<and> ok cloudflareResult \<and>
             setsAreEqual (newSet (ips targetResult)) (newSet (ips cloudflareResult)));
          matchesGoogle =
            (ok targetResult \<and> ok googleResult \<and>
             setsAreEqual (newSet (ips targetResult)) (newSet (ips googleResult)));
          (status', message') =
            (if \<not> ok targetResult
               then (StatusFailure,
                     case error targetResult of Some e \<Rightarrow> e | None \<Rightarrow> msg_target_query_failed)
             else if matchesCloudflare \<and> matchesGoogle
               then (StatusSuccess, msg_all_match)
             else if matchesCloudflare \<or> matchesGoogle
               then (StatusPartialMatch,
                     if matchesCloudflare then msg_matches_cloudflare else msg_matches_google)
             else (StatusFailure, msg_mismatch))
      in \<lparr>api_status = status',
          api_message = message' @ echMessageSuffix echComparison,
          details_target = targetResult,
          details_cloudflare = cloudflareResult,
          details_google = googleResult,
          matches_cloudflare = matchesCloudflare,
          matches_google = matchesGoogle,
          ech_comparison = echComparison\<rparr>)"

text \<open>
  Concrete provider results used as inputs below: a successful result carrying a list
  of addresses, a failed result carrying an error text, and an ECH result with or
  without a record.
\<close>

definition example_ok_result :: "jsstring list \<Rightarrow> unit DohProviderResult" where
  "example_ok_result addresses =
     \<lparr>status = Some 200, ok = True, ips = addresses, latency_ms = Some 20,
      response_format = Some FormatJson, content_type = Some (ascii ''application/dns-json''),
      raw = RawJson (), error = None,
      attempted_formats = [ModeJson, ModeWire], mode_results = None\<rparr>"

definition example_failed_result :: "jsstring \<Rightarrow> unit DohProviderResult" where
  "example_failed_result e =
     \<lparr>status = None, ok = False, ips = [], latency_ms = None,
      response_format = Some FormatUnknown, content_type = None,
      raw = RawAbsent, error = Some e,
      attempted_formats = [ModeJson, ModeWire], mode_results = None\<rparr>"

definition example_ech_result :: "jsstring option \<Rightarrow> unit EchProviderResult" where
  "example_ech_result r =
     \<lparr>found = (r \<noteq> None), ech_record = r, ech_status = Some 200, ech_latency_ms = Some 20,
      ech_attempted_formats = [ModeJson], ech_response_format = Some FormatJson,
      ech_content_type = Some (ascii ''application/dns-json''), ech_raw = RawJson (),
      ech_error = None\<rparr>"

section \<open>Wire message codec\<close>

subsection \<open>Numbers, base64 and error texts\<close>

text \<open>
  \<open>DataView.getUint16\<close> (big-endian) at a position of the message. Every call of the
  program is inside the buffer, by the bounds check before it.
\<close>

definition getUint16 :: "byte list \<Rightarrow> nat \<Rightarrow> nat" where
  "getUint16 message pos = unat (message ! pos) * 256 + unat (message ! (pos + 1))"

text \<open>The decimal text of a non-negative integer, as a template literal prints it.\<close>

fun decimal :: "nat \<Rightarrow> jsstring" where
  "decimal n = (if n < 10 then [48 + n] else decimal (n div 10) @ [48 + n mod 10])"

declare decimal.simps [simp del]

text \<open>\<open>Number.prototype.toString(16)\<close> on a non-negative integer: lowercase digits.\<close>

fun hexadecimal :: "nat \<Rightarrow> jsstring" where
  "hexadecimal n =
     (if n < 16 then [if n < 10 then 48 + n else 87 + n]
      else hexadecimal (n div 16) @ [if n mod 16 < 10 then 48 + n mod 16 else 87 + n mod 16])"

declare hexadecimal.simps [simp del]

text \<open>
  \<open>bytesToBase64\<close>: the platform's \<open>btoa\<close> on the binary string of the bytes, that
  is base64 of RFC 4648 with padding.
\<close>

definition base64_alphabet :: jsstring where
  "base64_alphabet =
     ascii ''ABCDEFGHIJKLMNOPQRSTUVWXYZabcdefghijklmnopqrstuvwxyz0123456789+/''"

definition base64_char :: "nat \<Rightarrow> nat" where
  "base64_char i = base64_alphabet ! i"

fun base64_groups :: "nat list \<Rightarrow> jsstring" where
  "base64_groups [] = []"
| "base64_groups [a] =
     [base64_char (a div 4), base64_char ((a mod 4) * 16), 61, 61]"
| "base64_groups [a, b] =
     [base64_char (a div 4), base64_char ((a mod 4) * 16 + b div 16),
      base64_char ((b mod 16) * 4), 61]"
| "base64_groups (a # b # c # rest) =
     [base64_char (a div 4), base64_char ((a mod 4) * 16 + b div 16),
      base64_char ((b mod 16) * 4 + c div 64), base64_char (c mod 64)] @ base64_groups rest"

definition bytesToBase64 :: "byte list \<Rightarrow> jsstring" where
  "bytesToBase64 bytes = base64_groups (map unat bytes)"

text \<open>
  The message of each error \<open>readDnsName\<close> throws: what \<open>normalizeErrorMessage\<close>
  returns for it.
\<close>

definition msg_safety_limit :: jsstring where
  "msg_safety_limit =
     ascii ''DNS '' @ [0x540D, 0x79F0, 0x89E3, 0x6790, 0x8D85, 0x51FA, 0x5B89, 0x5168,
     0x9650, 0x5236]"

definition msg_name_out_of_range :: jsstring where
  "msg_name_out_of_range =
     ascii ''DNS '' @ [0x540D, 0x79F0, 0x8D85, 0x51FA, 0x62A5, 0x6587, 0x8303, 0x56F4]"

definition msg_pointer_truncated :: jsstring where
  "msg_pointer_truncated =
     ascii ''DNS '' @ [0x540D, 0x79F0, 0x6307, 0x9488, 0x622A, 0x65AD]"

definition msg_pointer_out_of_range :: jsstring where
  "msg_pointer_out_of_range =
     ascii ''DNS '' @ [0x540D, 0x79F0, 0x6307, 0x9488, 0x8D8A, 0x754C]"

definition msg_illegal_label_length :: jsstring where
  "msg_illegal_label_length =
     ascii ''DNS '' @ [0x6807, 0x7B7E, 0x957F, 0x5EA6, 0x975E, 0x6CD5]"

definition msg_label_out_of_range :: jsstring where
  "msg_label_out_of_range =
     ascii ''DNS '' @ [0x6807, 0x7B7E, 0x8D85, 0x51FA, 0x62A5, 0x6587, 0x8303, 0x56F4]"

definition msg_message_too_short :: jsstring where
  "msg_message_too_short =
     ascii ''DNS '' @ [0x62A5, 0x6587, 0x8FC7, 0x77ED, 0x3002]"

fun dns_error_message :: "dns_error \<Rightarrow> jsstring" where
  "dns_error_message SafetyLimitExceeded = msg_safety_limit"
| "dns_error_message NameOutOfRange = msg_name_out_of_range"
| "dns_error_message PointerTruncated = msg_pointer_truncated"
| "dns_error_message PointerOutOfRange = msg_pointer_out_of_range"
| "dns_error_message IllegalLabelLength = msg_illegal_label_length"
| "dns_error_message LabelOutOfRange = msg_label_out_of_range"

subsection \<open>HTTPS (SVCB) records\<close>

text \<open>The local variables of the parameter loop of \<open>parseHttpsSvcbRecord\<close>.\<close>

record svcb_state =
  cursor :: nat
  params :: "jsstring list"
  hasEch :: bool
  echBase64 :: "jsstring option"

text \<open>
  The loop \<open>while (cursor < rdlength)\<close>. The \<open>DataView\<close> starts at \<open>offset\<close>, so
  \<open>view.getUint16(cursor)\<close> reads the message at \<open>offset + cursor\<close>.
\<close>

function svcb_loop :: "byte list \<Rightarrow> nat \<Rightarrow> nat \<Rightarrow> svcb_state \<Rightarrow> svcb_state" where
  "svcb_loop message offset rdlength s =
     (if cursor s < rdlength then
        (if cursor s + 4 > rdlength then s
         else if cursor s + 4 + getUint16 message (offset + cursor s + 2) > rdlength
           then s\<lparr>cursor := cursor s + 4\<rparr>
         else svcb_loop message offset rdlength
                (s\<lparr>cursor := cursor s + 4 + getUint16 message (offset + cursor s + 2),
                   hasEch := (if getUint16 message (offset + cursor s) = 5 then True
                              else hasEch s),
                   echBase64 :=
                     (if getUint16 message (offset + cursor s) = 5
                      then Some (bytesToBase64
                             (take (getUint16 message (offset + cursor s + 2))
                                (drop (offset + cursor s + 4) message)))
                      else echBase64 s),
                   params := params s @
                     [ascii ''key'' @ decimal (getUint16 message (offset + cursor s)) @
                      ascii ''('' @ decimal (getUint16 message (offset + cursor s + 2)) @
                      ascii ''B)'']\<rparr>))
      else s)"
  by pat_completeness auto
termination
  by (relation "measure (\<lambda>(message, offset, rdlength, s). rdlength - cursor s)") auto

declare svcb_loop.simps [simp del]

record svcb_result =
  has_ech :: bool
  description :: jsstring

definition parseHttpsSvcbRecord :: "byte list \<Rightarrow> nat \<Rightarrow> nat \<Rightarrow> dns_error + svcb_result" where
  "parseHttpsSvcbRecord message offset rdlength =
     (if offset + rdlength > length message then Inr \<lparr>has_ech = False, description = []\<rparr>
      else if rdlength < 4 then Inr \<lparr>has_ech = False, description = []\<rparr>
      else
        case readDnsName message (offset + 2) of
          Inl e \<Rightarrow> Inl e
        | Inr nameInfo \<Rightarrow>
            let priority = getUint16 message offset;
                targetName = (if name nameInfo = [] then ascii ''.'' else name nameInfo);
                s = svcb_loop message offset rdlength
                      \<lparr>cursor = 2 + consumed nameInfo, params = [], hasEch = False,
                       echBase64 = None\<rparr>;
                d1 = ascii ''priority='' @ decimal priority @ ascii '' target='' @ targetName;
                d2 = (if length (params s) > 0
                      then d1 @ ascii '' params=['' @ join (ascii '', '') (params s) @ ascii '']''
                      else d1);
                d3 = (if hasEch s
                      then d2 @ (case echBase64 s of
                                   Some b \<Rightarrow> if b \<noteq> [] then ascii '' echconfig(base64)='' @ b
                                             else ascii '' echconfig''
                                 | None \<Rightarrow> ascii '' echconfig'')
                      else d2)
            in Inr \<lparr>has_ech = hasEch s, description = d3\<rparr>)"

text \<open>The object \<open>{ found, record?, error? }\<close> that \<open>findHttpsRecordInDnsMessage\<close> returns.\<close>

record https_lookup =
  lookup_found :: bool
  lookup_record :: "jsstring option"
  lookup_error :: "jsstring option"

text \<open>The loop over the question section: a name and four more bytes each.\<close>

fun skipQuestions :: "byte list \<Rightarrow> nat \<Rightarrow> nat \<Rightarrow> dns_error + nat" where
  "skipQuestions message 0 offset = Inr offset"
| "skipQuestions message (Suc n) offset =
     (case readDnsName message offset of
        Inl e \<Rightarrow> Inl e
      | Inr nameInfo \<Rightarrow> skipQuestions message n (offset + consumed nameInfo + 4))"

text \<open>
  The loop over the answer section, with the number of records still to read, the
  offset and \<open>fallbackRecord\<close>. A \<open>break\<close> and the end of the loop both lead to the final
  \<open>return { found: false, record: fallbackRecord }\<close>.
\<close>

fun httpsAnswers_loop ::
  "byte list \<Rightarrow> nat \<Rightarrow> nat \<Rightarrow> jsstring option \<Rightarrow> dns_error + https_lookup" where
  "httpsAnswers_loop message 0 offset fallbackRecord =
     Inr \<lparr>lookup_found = False, lookup_record = fallbackRecord, lookup_error = None\<rparr>"
| "httpsAnswers_loop message (Suc n) offset fallbackRecord =
     (case readDnsName message offset of
        Inl e \<Rightarrow> Inl e
      | Inr nameInfo \<Rightarrow>
          let p = offset + consumed nameInfo in
          if p + 10 > length message
            then Inr \<lparr>lookup_found = False, lookup_record = fallbackRecord, lookup_error = None\<rparr>
          else
            let rtype = getUint16 message p; rdlength = getUint16 message (p + 8) in
            if p + 10 + rdlength > length message
              then Inr \<lparr>lookup_found = False, lookup_record = fallbackRecord,
                        lookup_error = None\<rparr>
            else if rtype = 65 then
              (case parseHttpsSvcbRecord message (p + 10) rdlength of
                 Inl e \<Rightarrow> Inl e
               | Inr r \<Rightarrow>
                   if has_ech r
                     then Inr \<lparr>lookup_found = True, lookup_record = Some (description r),
                               lookup_error = None\<rparr>
                   else httpsAnswers_loop message n (p + 10 + rdlength)
                          (if \<not> truthy fallbackRecord \<and> description r \<noteq> []
                           then Some (description r) else fallbackRecord))
            else httpsAnswers_loop message n (p + 10 + rdlength) fallbackRecord)"

definition findHttpsRecordInDnsMessage :: "byte list \<Rightarrow> https_lookup" where
  "findHttpsRecordInDnsMessage buffer =
     (if length buffer < 12
        then \<lparr>lookup_found = False, lookup_record = None,
              lookup_error = Some msg_message_too_short\<rparr>
      else
        case (case skipQuestions buffer (getUint16 buffer 4) 12 of
                Inl e \<Rightarrow> Inl e
              | Inr offset \<Rightarrow> httpsAnswers_loop buffer (getUint16 buffer 6) offset None) of
          Inl e \<Rightarrow> \<lparr>lookup_found = False, lookup_record = None,
                     lookup_error = Some (dns_error_message e)\<rparr>
        | Inr r \<Rightarrow> r)"

text \<open>
  The wording of the specification, section 4.2: the parameters of an HTTPS record are
  the triples (key, length, value) read one after the other from the bytes that follow
  the target name, until these bytes are exhausted. \<open>svcbParams\<close> reads them from that
  region, given as a byte list of its own; a triple that does not fit ends the list.
\<close>

function svcbParams :: "byte list \<Rightarrow> (nat \<times> byte list) list" where
  "svcbParams region =
     (if length region < 4 then []
      else if 4 + getUint16 region 2 > length region then []
      else (getUint16 region 0, take (getUint16 region 2) (drop 4 region))
             # svcbParams (drop (4 + getUint16 region 2) region))"
  by pat_completeness auto
termination
  by (relation "measure length") auto

declare svcbParams.simps [simp del]

text \<open>The value of the last parameter with key 5, if there is one.\<close>

fun echValue :: "(nat \<times> byte list) list \<Rightarrow> byte list option" where
  "echValue [] = None"
| "echValue ((k, v) # rest) =
     (case echValue rest of Some w \<Rightarrow> Some w | None \<Rightarrow> if k = 5 then Some v else None)"

text \<open>
  The HTTPS records among the first \<open>n\<close> answer records from \<open>offset\<close> on, in order,
  each as \<open>parseHttpsSvcbRecord\<close> reads it. The list ends at a truncated record, and
  at a name that cannot be decoded (with the error as its last entry).
\<close>

fun httpsAnswers :: "byte list \<Rightarrow> nat \<Rightarrow> nat \<Rightarrow> (dns_error + svcb_result) list" where
  "httpsAnswers message 0 offset = []"
| "httpsAnswers message (Suc n) offset =
     (case readDnsName message offset of
        Inl e \<Rightarrow> [Inl e]
      | Inr nameInfo \<Rightarrow>
          let p = offset + consumed nameInfo in
          if p + 10 > length message then []
          else
            let rdlength = getUint16 message (p + 8) in
            if p + 10 + rdlength > length message then []
            else if getUint16 message p = 65 then
              (case parseHttpsSvcbRecord message (p + 10) rdlength of
                 Inl e \<Rightarrow> [Inl e]
               | Inr r \<Rightarrow> Inr r # httpsAnswers message n (p + 10 + rdlength))
            else httpsAnswers message n (p + 10 + rdlength))"

text \<open>
  The example of the specification: one answer, an HTTPS record with priority 1, the
  root as target name and the single parameter key 5 with the value \<open>DE AD\<close>.
\<close>

definition example_ech_message :: "byte list" where
  "example_ech_message =
     [0x12, 0x34, 0x81, 0x80, 0, 0, 0, 1, 0, 0, 0, 0,
      0, 0, 65, 0, 1, 0, 0, 0, 60, 0, 9,
      0, 1, 0, 0, 5, 0, 2, 0xDE, 0xAD]"

text \<open>
  Two answers, both HTTPS records without an ECH parameter: the first has priority 0
  and the root as target (three bytes of data), the second priority 1 and target
  \<open>a\<close>.
\<close>

definition example_alias_message :: "byte list" where
  "example_alias_message =
     [0x12, 0x34, 0x81, 0x80, 0, 0, 0, 2, 0, 0, 0, 0,
      0, 0, 65, 0, 1, 0, 0, 0, 60, 0, 3,
      0, 0, 0,
      0, 0, 65, 0, 1, 0, 0, 0, 60, 0, 5,
      0, 1, 1, 0x61, 0]"

subsection \<open>Address records\<close>

definition formatIpv4 :: "byte list \<Rightarrow> jsstring" where
  "formatIpv4 bytes =
     decimal (unat (bytes ! 0)) @ ascii ''.'' @ decimal (unat (bytes ! 1)) @ ascii ''.'' @
     decimal (unat (bytes ! 2)) @ ascii ''.'' @ decimal (unat (bytes ! 3))"

definition formatIpv6 :: "byte list \<Rightarrow> jsstring" where
  "formatIpv6 bytes =
     join (ascii '':'')
       (map (\<lambda>i. hexadecimal (push_bit 8 (unat (bytes ! (i * 2))) OR unat (bytes ! (i * 2 + 1))))
          [0..<8])"

text \<open>
  The branch on the record type inside the answer loop of \<open>extractIpsFromDnsMessage\<close>:
  the set \<open>seen\<close> after a record of type \<open>rtype\<close> whose data of \<open>rdlength\<close> bytes
  start at \<open>pos\<close>.
\<close>

definition recordAddress ::
  "byte list \<Rightarrow> nat \<Rightarrow> nat \<Rightarrow> nat \<Rightarrow> jsstring list \<Rightarrow> jsstring list" where
  "recordAddress message pos rtype rdlength seen =
     (if rtype = 1 \<and> rdlength = 4
        then setAdd (formatIpv4 (take 4 (drop pos message))) seen
      else if rtype = 28 \<and> rdlength = 16
        then setAdd (formatIpv6 (take 16 (drop pos message))) seen
      else seen)"

text \<open>
  The loop of \<open>extractIpsFromDnsMessage\<close> over the answer section, with the set
  \<open>seen\<close>. Here no \<open>try\<close> surrounds the loops: an error of \<open>readDnsName\<close> leaves the
  function.
\<close>

fun addressAnswers_loop ::
  "byte list \<Rightarrow> nat \<Rightarrow> nat \<Rightarrow> jsstring list \<Rightarrow> dns_error + jsstring list" where
  "addressAnswers_loop message 0 offset seen = Inr seen"
| "addressAnswers_loop message (Suc n) offset seen =
     (case readDnsName message offset of
        Inl e \<Rightarrow> Inl e
      | Inr nameInfo \<Rightarrow>
          if offset + consumed nameInfo + 10 > length message then Inr seen
          else if offset + consumed nameInfo + 10
                    + getUint16 message (offset + consumed nameInfo + 8) > length message
            then Inr seen
          else addressAnswers_loop message n
                 (offset + consumed nameInfo + 10
                    + getUint16 message (offset + consumed nameInfo + 8))
                 (recordAddress message (offset + consumed nameInfo + 10)
                    (getUint16 message (offset + consumed nameInfo))
                    (getUint16 message (offset + consumed nameInfo + 8)) seen))"

definition extractIpsFromDnsMessage :: "byte list \<Rightarrow> dns_error + jsstring list" where
  "extractIpsFromDnsMessage buffer =
     (if length buffer < 12 then Inr []
      else
        case skipQuestions buffer (getUint16 buffer 4) 12 of
          Inl e \<Rightarrow> Inl e
        | Inr offset \<Rightarrow> addressAnswers_loop buffer (getUint16 buffer 6) offset [])"

section \<open>Query construction: record types\<close>

text \<open>
  A JavaScript number: \<open>NaN\<close>, the two infinities, or a finite value (a rational; the
  sign of zero is not kept, the program only tests \<open>numeric > 0\<close>).
\<close>

datatype jsnumber = NaN | PosInfinity | NegInfinity | Finite rat

text \<open>
  \<open>String.prototype.toUpperCase\<close>. The ASCII letters are mapped as JavaScript maps
  them, and so are the two code units outside ASCII whose upper case is an ASCII
  letter (U+017F to \<open>S\<close>, U+0131 to \<open>I\<close>). Every other code unit is left as it is:
  JavaScript may change it, but never into ASCII letters that make the result equal to
  \<open>A\<close>, \<open>AAAA\<close> or \<open>HTTPS\<close>, the only use the program makes of the result.
\<close>

definition upperUnit :: "nat \<Rightarrow> nat" where
  "upperUnit c =
     (if 97 \<le> c \<and> c \<le> 122 then c - 32
      else if c = 0x17F then 83
      else if c = 0x131 then 73
      else c)"

definition toUpperCase :: "jsstring \<Rightarrow> jsstring" where
  "toUpperCase s = map upperUnit s"

definition msg_unsupported_record_type :: jsstring where
  "msg_unsupported_record_type =
     [0x4E0D, 0x652F, 0x6301, 0x7684] @ ascii '' DNS '' @ [0x8BB0, 0x5F55, 0x7C7B, 0x578B]
     @ ascii '': ''"

text \<open>
  The error \<open>recordTypeToNumber\<close> throws (the specification's
  \<open>UnsupportedRecordType\<close>), with the offending token, and its message.
\<close>

datatype query_error = UnsupportedRecordType jsstring

fun query_error_message :: "query_error \<Rightarrow> jsstring" where
  "query_error_message (UnsupportedRecordType t) = msg_unsupported_record_type @ t"

text \<open>
  \<open>recordTypeToNumber\<close>. The argument \<open>numeric\<close> is the value of \<open>Number(recordType)\<close>,
  the conversion of the language: the function is stated for every value the
  conversion can give, and the examples below apply it to a token together with the
  value \<open>Number\<close> gives for that token.
\<close>

definition recordTypeToNumber :: "jsnumber \<Rightarrow> jsstring \<Rightarrow> query_error + rat" where
  "recordTypeToNumber numeric recordType =
     (let upper = toUpperCase recordType in
      if upper = ascii ''A'' then Inr 1
      else if upper = ascii ''AAAA'' then Inr 28
      else if upper = ascii ''HTTPS'' then Inr 65
      else
        case numeric of
          Finite n \<Rightarrow>
            if n > 0 then Inr n else Inl (UnsupportedRecordType recordType)
        | _ \<Rightarrow> Inl (UnsupportedRecordType recordType))"

text \<open>
  Strings of decimal digits, their value, and the number of their significant digits
  (those between the first and the last digit that is not \<open>0\<close>).
\<close>

definition isDigits :: "jsstring \<Rightarrow> bool" where
  "isDigits s \<longleftrightarrow> list_all (\<lambda>c. 48 \<le> c \<and> c \<le> 57) s"

definition digitsValue :: "jsstring \<Rightarrow> nat" where
  "digitsValue s = foldl (\<lambda>acc c. 10 * acc + (c - 48)) 0 s"

definition significantDigits :: "jsstring \<Rightarrow> nat" where
  "significantDigits s =
     length (dropWhile (\<lambda>c. c = 48) (rev (dropWhile (\<lambda>c. c = 48) s)))"

text \<open>
  The double-precision number of a natural number \<open>n\<close> (round to nearest, ties to
  even). From \<open>2 ^ 1024 - 2 ^ 970\<close> on, half a unit above the largest double, the result
  is \<open>Infinity\<close>. A number of at most 53 bits is represented exactly. A longer one keeps
  its leading 53 bits \<open>q\<close>, counted in units of \<open>2 ^ (bitLength n - 53)\<close>, and is rounded
  up when the remainder \<open>r\<close> is more than half a unit, or exactly half a unit with \<open>q\<close>
  odd.
\<close>

fun bitLength :: "nat \<Rightarrow> nat" where
  "bitLength n = (if n = 0 then 0 else 1 + bitLength (n div 2))"

declare bitLength.simps [simp del]

definition toDouble :: "nat \<Rightarrow> jsnumber" where
  "toDouble n =
     (if 2 ^ 1024 - 2 ^ 970 \<le> n then PosInfinity
      else if bitLength n \<le> 53 then Finite (of_nat n)
      else
        let ulp = 2 ^ (bitLength n - 53);
            q = n div ulp;
            r = n mod ulp
        in Finite (of_nat
             ((if ulp < 2 * r \<or> (2 * r = ulp \<and> odd q) then q + 1 else q) * ulp)))"

text \<open>
  \<open>Number\<close> on strings of decimal digits: the double-precision number of the value; the
  empty string gives 0. The function is defined on the digit strings of at most 20
  significant digits, for which the language fixes the result to the last bit, and is
  \<open>None\<close> on every other string (for which it says nothing about \<open>Number\<close>).
\<close>

definition numberOfDigits :: "jsstring \<Rightarrow> jsnumber option" where
  "numberOfDigits s =
     (if isDigits s \<and> significantDigits s \<le> 20 then Some (toDouble (digitsValue s))
      else None)"

text \<open>
  A positive integer string that \<open>Number\<close> does not read as a finite number: the digit
  \<open>1\<close> followed by 309 zeros.
\<close>

definition example_huge_token :: jsstring where
  "example_huge_token = ascii ''1'' @ replicate 309 48"

section \<open>Query executor\<close>

subsection \<open>The HTTP client\<close>

text \<open>
  What the program hands to \<open>fetch\<close>: the URL, the \<open>Accept\<close> header and the timeout of
  the abort signal.
\<close>

record request =
  req_url :: jsstring
  req_accept :: jsstring
  req_timeout :: nat

text \<open>
  What the program reads of a \<open>Response\<close>: the status, the \<open>content-type\<close> header and
  the body through \<open>json()\<close>, \<open>text()\<close> or \<open>arrayBuffer()\<close>. Each body reader may
  throw; \<open>Inl\<close> carries what \<open>normalizeErrorMessage\<close> makes of the thrown value.
  \<open>response.ok\<close> is a status from 200 to 299.
\<close>

record 'j response =
  resp_status :: nat
  resp_content_type :: "jsstring option"
  resp_json :: "jsstring + 'j"
  resp_text :: "jsstring + jsstring"
  resp_arrayBuffer :: "jsstring + byte list"

definition response_ok :: "'j response \<Rightarrow> bool" where
  "response_ok r \<longleftrightarrow> 200 \<le> resp_status r \<and> resp_status r \<le> 299"

text \<open>
  The HTTP client and the clock, as a stub: \<open>respond\<close> gives for each request either
  the message of the error \<open>fetch\<close> rejects with (a timeout, a network error) or the
  response, \<open>elapsed\<close> the milliseconds the round trip takes; \<open>now\<close> is \<open>Date.now()\<close>
  and \<open>calls\<close> the requests issued so far.
\<close>

record 'j http_client =
  respond :: "request \<Rightarrow> jsstring + 'j response"
  elapsed :: "request \<Rightarrow> int"
  now :: int
  calls :: "request list"

definition fetch :: "request \<Rightarrow> 'j http_client \<Rightarrow> (jsstring + 'j response) \<times> 'j http_client" where
  "fetch rq client =
     (respond client rq, client\<lparr>now := now client + elapsed client rq, calls := calls client @ [rq]\<rparr>)"

text \<open>
  Parts of the program that are kept as parameters: the two URL builders (\<open>Inl\<close> is the
  message of the error they throw, \<open>Inr\<close> the text of the URL) and the two readers of a
  parsed JSON body. The theorems below hold for every choice of them.
\<close>

record 'j externals =
  buildDohJsonUrl :: "jsstring \<Rightarrow> jsstring \<Rightarrow> jsstring \<Rightarrow> jsstring + jsstring"
  buildDohWireUrl :: "jsstring \<Rightarrow> jsstring \<Rightarrow> jsstring \<Rightarrow> jsstring + jsstring"
  extractIpsFromAnswer :: "'j \<Rightarrow> jsstring list"
  extractHttpsRecord :: "'j \<Rightarrow> jsstring option"

subsection \<open>Content types and texts\<close>

text \<open>
  \<open>String.prototype.toLowerCase\<close> on a header value: the ASCII letters; other code
  units do not bear on the ASCII needles searched below.
\<close>

definition toLowerCase :: "jsstring \<Rightarrow> jsstring" where
  "toLowerCase s = map (\<lambda>c. if 65 \<le> c \<and> c \<le> 90 then c + 32 else c) s"

definition isJsonContentType :: "jsstring option \<Rightarrow> bool" where
  "isJsonContentType contentType =
     (case contentType of
        None \<Rightarrow> False
      | Some ct \<Rightarrow>
          if ct = [] then False
          else str_includes (toLowerCase ct) (ascii ''application/dns-json'') \<or>
               str_includes (toLowerCase ct) (ascii ''application/json'') \<or>
               str_includes (toLowerCase ct) (ascii ''text/json''))"

definition isTextContentType :: "jsstring option \<Rightarrow> bool" where
  "isTextContentType contentType =
     (case contentType of
        None \<Rightarrow> False
      | Some ct \<Rightarrow>
          if ct = [] then False
          else str_includes (toLowerCase ct) (ascii ''text/'') \<or>
               str_includes (toLowerCase ct) (ascii ''application/text'') \<or>
               str_includes (toLowerCase ct) (ascii ''text/plain''))"

definition msg_no_a_record :: jsstring where
  "msg_no_a_record =
     [0x672A, 0x5728, 0x54CD, 0x5E94, 0x4E2D, 0x627E, 0x5230, 0x6709, 0x6548, 0x7684] @
     ascii '' A '' @ [0x8BB0, 0x5F55, 0x3002]"

definition msg_json_parse_failed :: jsstring where
  "msg_json_parse_failed =
     [0x89E3, 0x6790] @ ascii '' JSON '' @ [0x54CD, 0x5E94, 0x5931, 0x8D25, 0xFF1A]"

definition msg_text_response_prefix :: jsstring where
  "msg_text_response_prefix =
     [0x670D, 0x52A1, 0x5668, 0x8FD4, 0x56DE, 0x6587, 0x672C, 0x54CD, 0x5E94, 0xFF1A]"

definition msg_text_response :: jsstring where
  "msg_text_response =
     [0x670D, 0x52A1, 0x5668, 0x8FD4, 0x56DE, 0x4E86, 0x6587, 0x672C, 0x54CD, 0x5E94,
     0x3002]"

definition msg_no_address_record :: jsstring where
  "msg_no_address_record =
     [0x672A, 0x5728, 0x54CD, 0x5E94, 0x4E2D, 0x627E, 0x5230, 0x6709, 0x6548, 0x7684] @
     ascii '' A/AAAA '' @ [0x8BB0, 0x5F55, 0x3002]"

definition msg_wire_parse_failed :: jsstring where
  "msg_wire_parse_failed =
     [0x89E3, 0x6790] @ ascii '' DNS '' @ [0x4E8C, 0x8FDB, 0x5236, 0x62A5, 0x6587, 0x5931,
     0x8D25, 0xFF1A]"



text \<open>The snippet of a text body: at most 200 code units, then an ellipsis.\<close>

definition textSnippet :: "jsstring \<Rightarrow> jsstring" where
  "textSnippet body = (if length body > 200 then take 200 body @ [0x2026] else body)"

definition createDnsMessageRaw :: "byte list \<Rightarrow> jsstring option \<Rightarrow> 'j raw_payload" where
  "createDnsMessageRaw buffer contentType = RawDnsMessage contentType (bytesToBase64 buffer)"

subsection \<open>One attempt: \<open>performDohRequest\<close> and \<open>performHttpsRequest\<close>\<close>

text \<open>
  The result both \<open>catch\<close> blocks of \<open>performDohRequest\<close> build: of the failed URL
  construction, and of an error thrown by \<open>fetch\<close> or while the body is read.
\<close>

definition dohRequestFailed :: "DohRequestMode \<Rightarrow> jsstring \<Rightarrow> 'j DohProviderModeResult" where
  "dohRequestFailed m e =
     \<lparr>status = None, ok = False, ips = [], latency_ms = None,
      response_format = Some FormatUnknown, content_type = None, raw = RawAbsent,
      error = Some e, mode = m\<rparr>"

text \<open>
  The body of the second \<open>try\<close> of \<open>performDohRequest\<close> once \<open>fetch\<close> has resolved
  (lines 384 to 464), with the measured latency.
\<close>

definition dohResponseResult ::
  "'j externals \<Rightarrow> DohRequestMode \<Rightarrow> int \<Rightarrow> 'j response \<Rightarrow> 'j DohProviderModeResult" where
  "dohResponseResult ext m latency resp =
     (let contentType = resp_content_type resp in
      if isJsonContentType contentType then
        (case resp_json resp of
           Inr json \<Rightarrow>
             let addresses = extractIpsFromAnswer ext json;
                 ok' = (response_ok resp \<and> length addresses > 0)
             in \<lparr>status = Some (resp_status resp), ok = ok', ips = addresses,
                 latency_ms = Some latency, response_format = Some FormatJson,
                 content_type = contentType, raw = RawJson json,
                 error = (if ok' then None else Some msg_no_a_record), mode = m\<rparr>
         | Inl e \<Rightarrow>
             \<lparr>status = Some (resp_status resp), ok = False, ips = [],
              latency_ms = Some latency, response_format = Some FormatJson,
              content_type = contentType, raw = RawNull,
              error = Some (msg_json_parse_failed @ e), mode = m\<rparr>)
      else if isTextContentType contentType then
        (case resp_text resp of
           Inl e \<Rightarrow> dohRequestFailed m e
         | Inr body \<Rightarrow>
             \<lparr>status = Some (resp_status resp), ok = False, ips = [],
              latency_ms = Some latency, response_format = Some FormatText,
              content_type = contentType, raw = RawText (textSnippet body),
              error = Some (if textSnippet body \<noteq> []
                            then msg_text_response_prefix @ textSnippet body
                            else msg_text_response),
              mode = m\<rparr>)
      else
        (case resp_arrayBuffer resp of
           Inl e \<Rightarrow> dohRequestFailed m e
         | Inr buffer \<Rightarrow>
             (case extractIpsFromDnsMessage buffer of
                Inr addresses \<Rightarrow>
                  let ok' = (response_ok resp \<and> length addresses > 0)
                  in \<lparr>status = Some (resp_status resp), ok = ok', ips = addresses,
                      latency_ms = Some latency, response_format = Some FormatWire,
                      content_type = contentType,
                      raw = createDnsMessageRaw buffer contentType,
                      error = (if ok' then None else Some msg_no_address_record), mode = m\<rparr>
              | Inl e \<Rightarrow>
                  \<lparr>status = Some (resp_status resp), ok = False, ips = [],
                   latency_ms = Some latency, response_format = Some FormatWire,
                   content_type = contentType,
                   raw = createDnsMessageRaw buffer contentType,
                   error = Some (msg_wire_parse_failed @ dns_error_message e), mode = m\<rparr>)))"

text \<open>The URL and the \<open>Accept\<close> header of a request in a mode.\<close>

definition requestUrl ::
  "'j externals \<Rightarrow> DohRequestMode \<Rightarrow> jsstring \<Rightarrow> jsstring \<Rightarrow> jsstring \<Rightarrow> jsstring + jsstring" where
  "requestUrl ext m endpoint qname recordType =
     (if m = ModeJson then buildDohJsonUrl ext endpoint qname recordType
      else buildDohWireUrl ext endpoint qname recordType)"

definition acceptHeader :: "DohRequestMode \<Rightarrow> jsstring" where
  "acceptHeader m =
     (if m = ModeJson then ascii ''application/dns-json'' else ascii ''application/dns-message'')"

definition performDohRequest ::
  "'j externals \<Rightarrow> jsstring \<Rightarrow> jsstring \<Rightarrow> jsstring \<Rightarrow> nat \<Rightarrow> DohRequestMode
     \<Rightarrow> 'j http_client \<Rightarrow> 'j DohProviderModeResult \<times> 'j http_client" where
  "performDohRequest ext endpoint qname recordType timeout m client =
     (case requestUrl ext m endpoint qname recordType of
        Inl e \<Rightarrow> (dohRequestFailed m e, client)
      | Inr url \<Rightarrow>
          let started = now client;
              (outcome, client') =
                fetch \<lparr>req_url = url, req_accept = acceptHeader m, req_timeout = timeout\<rparr> client
          in (case outcome of
                Inl e \<Rightarrow> (dohRequestFailed m e, client')
              | Inr resp \<Rightarrow> (dohResponseResult ext m (now client' - started) resp, client')))"




subsection \<open>One provider: \<open>fetchDohAnswer\<close> and \<open>fetchHttpsRecord\<close>\<close>

definition summarizeDohModeResult ::
  "'j DohProviderModeResult \<Rightarrow> 'j DohProviderModeResult list \<Rightarrow> 'j DohProviderResult" where
  "summarizeDohModeResult successful attempts =
     \<lparr>status = status successful, ok = ok successful, ips = ips successful,
      latency_ms = latency_ms successful, response_format = response_format successful,
      content_type = content_type successful, raw = raw successful, error = error successful,
      attempted_formats = map mode attempts, mode_results = Some attempts\<rparr>"

text \<open>
  The loop \<open>for (const mode of ["json", "wire"])\<close> of \<open>fetchDohAnswer\<close>: one request
  per mode of the list, one after the other, the results collected in order.
\<close>

fun dohRequests ::
  "'j externals \<Rightarrow> jsstring \<Rightarrow> jsstring \<Rightarrow> jsstring \<Rightarrow> nat \<Rightarrow> DohRequestMode list
     \<Rightarrow> 'j http_client \<Rightarrow> 'j DohProviderModeResult list \<times> 'j http_client" where
  "dohRequests ext endpoint qname recordType timeout [] client = ([], client)"
| "dohRequests ext endpoint qname recordType timeout (m # ms) client =
     (case performDohRequest ext endpoint qname recordType timeout m client of
        (r, client') \<Rightarrow>
          (case dohRequests ext endpoint qname recordType timeout ms client' of
             (rs, client'') \<Rightarrow> (r # rs, client'')))"

definition fetchDohAnswer ::
  "'j externals \<Rightarrow> jsstring \<Rightarrow> jsstring \<Rightarrow> jsstring \<Rightarrow> nat
     \<Rightarrow> 'j http_client \<Rightarrow> 'j DohProviderResult \<times> 'j http_client" where
  "fetchDohAnswer ext endpoint qname recordType timeout client =
     (case dohRequests ext endpoint qname recordType timeout [ModeJson, ModeWire] client of
        (modeResults, client') \<Rightarrow>
          let summary = (case find ok modeResults of
                           Some successful \<Rightarrow> summarizeDohModeResult successful modeResults
                         | None \<Rightarrow> combineDohFailures modeResults)
          in (summary\<lparr>attempted_formats := map mode modeResults,
                       mode_results := Some modeResults\<rparr>, client'))"


subsection \<open>Settled provider queries in \<open>runDohCheck\<close>\<close>

text \<open>
  An entry of \<open>Promise.allSettled\<close>: fulfilled with a value, or rejected with a reason
  (kept as the text \<open>normalizeErrorMessage\<close> makes of it). \<open>settledDetails\<close> is the
  function mapped over the entries in lines 155 to 172.
\<close>

datatype 'a settled = Fulfilled 'a | Rejected jsstring

definition settledDetails :: "'j DohProviderResult settled \<Rightarrow> 'j DohProviderResult" where
  "settledDetails entry =
     (case entry of
        Fulfilled result \<Rightarrow> result
      | Rejected reason \<Rightarrow>
          \<lparr>status = None, ok = False, ips = [], latency_ms = None,
           response_format = Some FormatUnknown, content_type = None, raw = RawAbsent,
           error = Some reason, attempted_formats = [], mode_results = None\<rparr>)"

subsection \<open>A concrete endpoint\<close>

text \<open>
  A stub endpoint used as a concrete input below. In JSON mode it answers with status
  200 and a JSON body, in which the JSON readers find the address \<open>93.184.216.34\<close>
  and an HTTPS record with an \<open>ech=\<close> parameter; in wire mode it answers with a DNS
  message holding one A record with the same address. Each round trip takes 7 ms.
\<close>

definition example_address_message :: "byte list" where
  "example_address_message =
     [0x12, 0x34, 0x81, 0x80, 0, 0, 0, 1, 0, 0, 0, 0,
      0, 0, 1, 0, 1, 0, 0, 0, 60, 0, 4, 93, 184, 216, 34]"

definition example_externals :: "unit externals" where
  "example_externals =
     \<lparr>buildDohJsonUrl = (\<lambda>endpoint qname t.
        Inr (endpoint @ ascii ''?name='' @ qname @ ascii ''&type='' @ t)),
      buildDohWireUrl = (\<lambda>endpoint qname t. Inr (endpoint @ ascii ''?dns=EjQBAAABAAAAAAAA'')),
      extractIpsFromAnswer = (\<lambda>json. [ascii ''93.184.216.34'']),
      extractHttpsRecord = (\<lambda>json. Some (ascii ''1 . alpn=h3 ech=AEF''))\<rparr>"

definition example_client :: "unit http_client" where
  "example_client =
     \<lparr>respond = (\<lambda>rq.
        if req_accept rq = ascii ''application/dns-json''
        then Inr \<lparr>resp_status = 200, resp_content_type = Some (ascii ''application/dns-json''),
                  resp_json = Inr (), resp_text = Inr [], resp_arrayBuffer = Inr []\<rparr>
        else Inr \<lparr>resp_status = 200,
                  resp_content_type = Some (ascii ''application/dns-message''),
                  resp_json = Inl (ascii ''Unexpected token''), resp_text = Inr [],
                  resp_arrayBuffer = Inr example_address_message\<rparr>),
      elapsed = (\<lambda>rq. 7), now = 1000, calls = []\<rparr>"


text \<open>
  An endpoint that cannot be reached: every \<open>fetch\<close> fails with a network error, after
  3 ms.
\<close>

definition example_failing_client :: "unit http_client" where
  "example_failing_client =
     \<lparr>respond = (\<lambda>rq. Inl (ascii ''fetch failed'')),
      elapsed = (\<lambda>rq. 3), now = 1000, calls = []\<rparr>"
section \<open>Properties of the name codec\<close>

lemma readDnsName_loop_safety_le:
  "safety c \<le> length message + 1 \<Longrightarrow>
   safety (snd (readDnsName_loop message c)) \<le> length message + 1"
proof (induction message c rule: readDnsName_loop.induct)
  case (1 message c)
  show ?case
    using "1.IH" "1.prems"
    by (subst readDnsName_loop.simps) (simp split: if_splits)
qed

lemma readDnsName_loop_over_limit:
  "length message < safety c \<Longrightarrow> readDnsName_loop message c = (Some SafetyLimitExceeded, c)"
  by (subst readDnsName_loop.simps) simp

lemma readDnsName_loop_follow_pointer:
  assumes "pointer_at message a b" and "currentOffset c = a" and "safety c \<le> length message"
  shows "readDnsName_loop message c =
         readDnsName_loop message
           (c\<lparr>safety := safety c + 1,
              nlength := (if jumped c then nlength c else nlength c + 2),
              currentOffset := b, jumped := True\<rparr>)"
  using assms
  by (subst readDnsName_loop.simps) (simp add: pointer_at_def)

lemma readDnsName_loop_cycle:
  assumes ab: "pointer_at message a b" and ba: "pointer_at message b a"
  shows "currentOffset c = a \<or> currentOffset c = b \<Longrightarrow>
     fst (readDnsName_loop message c) = Some SafetyLimitExceeded"
proof (induction "Suc (length message) - safety c" arbitrary: c)
  case 0
  then have "length message < safety c" by simp
  then show ?case by (simp add: readDnsName_loop_over_limit)
next
  case (Suc n)
  then have le: "safety c \<le> length message" by simp
  let ?next = "\<lambda>t. c\<lparr>safety := safety c + 1,
              nlength := (if jumped c then nlength c else nlength c + 2),
              currentOffset := t, jumped := True\<rparr>"
  from Suc.prems show ?case
  proof
    assume at: "currentOffset c = a"
    have "readDnsName_loop message c = readDnsName_loop message (?next b)"
      by (rule readDnsName_loop_follow_pointer [OF ab at le])
    moreover have "fst (readDnsName_loop message (?next b)) = Some SafetyLimitExceeded"
      using Suc.hyps(2) by (intro Suc.hyps(1)) simp_all
    ultimately show ?thesis by simp
  next
    assume at: "currentOffset c = b"
    have "readDnsName_loop message c = readDnsName_loop message (?next a)"
      by (rule readDnsName_loop_follow_pointer [OF ba at le])
    moreover have "fst (readDnsName_loop message (?next a)) = Some SafetyLimitExceeded"
      using Suc.hyps(2) by (intro Suc.hyps(1)) simp_all
    ultimately show ?thesis by simp
  qed
qed

lemma readDnsName_loop_jumped_nlength:
  "jumped c \<Longrightarrow> nlength (snd (readDnsName_loop message c)) = nlength c"
proof (induction message c rule: readDnsName_loop.induct)
  case (1 message c)
  show ?case
    using "1.IH" "1.prems"
    by (subst readDnsName_loop.simps) (simp split: if_splits)
qed

lemma readDnsName_loop_nlength:
  "fst (readDnsName_loop message c) = None \<Longrightarrow> \<not> jumped c \<Longrightarrow>
   nlength (snd (readDnsName_loop message c)) = nlength c + bytesBeforeJump message (currentOffset c)"
proof (induction message c rule: readDnsName_loop.induct)
  case (1 message c)
  let ?len = "message ! currentOffset c"
  have nj: "\<not> jumped c" by (rule "1.prems"(2))
  consider (limit) "length message < safety c"
    | (range) "\<not> length message < safety c" "length message \<le> currentOffset c"
    | (ptr) "\<not> length message < safety c" "\<not> length message \<le> currentOffset c" "?len AND 0xC0 = 0xC0"
    | (root) "\<not> length message < safety c" "\<not> length message \<le> currentOffset c" "?len AND 0xC0 \<noteq> 0xC0" "?len = 0"
    | (label) "\<not> length message < safety c" "\<not> length message \<le> currentOffset c" "?len AND 0xC0 \<noteq> 0xC0" "?len \<noteq> 0"
    by blast
  then show ?case
  proof cases
    case limit
    with "1.prems" show ?thesis by (simp add: readDnsName_loop_over_limit)
  next
    case range
    with "1.prems" show ?thesis by (subst (asm) readDnsName_loop.simps) simp
  next
    case ptr
    have ok: "\<not> currentOffset c + 1 \<ge> length message"
      "\<not> push_bit 8 (unat (?len AND 0x3F)) OR unat (message ! (currentOffset c + 1))
           \<ge> length message"
      using "1.prems"(1) ptr
      by (subst (asm) readDnsName_loop.simps, simp split: if_splits)+
    have "nlength (snd (readDnsName_loop message c)) = nlength c + 2"
      using ptr nj ok
      by (subst readDnsName_loop.simps) (simp add: readDnsName_loop_jumped_nlength)
    moreover have "bytesBeforeJump message (currentOffset c) = 2"
      using ptr by (subst bytesBeforeJump.simps) simp
    ultimately show ?thesis by simp
  next
    case root
    have "nlength (snd (readDnsName_loop message c)) = nlength c + 1"
      using root nj by (subst readDnsName_loop.simps) simp
    moreover have "bytesBeforeJump message (currentOffset c) = 1"
      using root by (subst bytesBeforeJump.simps) simp
    ultimately show ?thesis by simp
  next
    case label
    let ?c' = "c\<lparr>safety := safety c + 1,
                labels := labels c @
                  [readLabel message (currentOffset c + 1) (unat ?len)],
                currentOffset := currentOffset c + 1 + unat ?len,
                nlength := (if jumped c then nlength c
                            else nlength c + (1 + unat ?len))\<rparr>"
    have ok: "\<not> unat ?len > 63" "\<not> currentOffset c + 1 + unat ?len > length message"
      using "1.prems"(1) label
      by (subst (asm) readDnsName_loop.simps, simp split: if_splits)+
    have step: "readDnsName_loop message c = readDnsName_loop message ?c'"
      using label ok by (subst readDnsName_loop.simps) simp
    have "nlength (snd (readDnsName_loop message ?c')) =
            nlength ?c' + bytesBeforeJump message (currentOffset ?c')"
      using label ok "1.prems" step
      by (intro "1.IH"(2)) simp_all
    moreover have "bytesBeforeJump message (currentOffset c) =
       1 + unat ?len + bytesBeforeJump message (currentOffset c + 1 + unat ?len)"
      using label by (subst bytesBeforeJump.simps) simp
    ultimately show ?thesis using step nj by simp
  qed
qed


text \<open>
  C1 (as the code has it). \<open>readDnsName_loop\<close> is a total function: its termination
  proof is the measure \<open>Suc (length message) - safety\<close>, so the decoder returns for
  every buffer and every starting offset. The counter \<open>safety\<close> counts the iterations
  that pass the guard at the top of the loop; when the loop is left it is at most
  \<open>length message + 1\<close>, because the guard throws as soon as the counter exceeds the
  buffer length. On a buffer in which a pointer at \<open>a\<close> leads to \<open>b\<close> and a pointer at
  \<open>b\<close> leads back to \<open>a\<close>, decoding from \<open>a\<close> ends with the error of the guard.
\<close>

theorem readDnsName_iteration_cap:
  "safety (snd (readDnsName_loop message (name_cursor_init offset))) \<le> length message + 1 \<and>
   (pointer_at message a b \<and> pointer_at message b a \<longrightarrow>
      readDnsName message a = Inl SafetyLimitExceeded)"
proof
  show "safety (snd (readDnsName_loop message (name_cursor_init offset))) \<le> length message + 1"
    by (rule readDnsName_loop_safety_le) (simp add: name_cursor_init_def)
next
  show "pointer_at message a b \<and> pointer_at message b a \<longrightarrow>
      readDnsName message a = Inl SafetyLimitExceeded"
  proof
    assume cyc: "pointer_at message a b \<and> pointer_at message b a"
    have "fst (readDnsName_loop message (name_cursor_init a)) = Some SafetyLimitExceeded"
      using cyc by (intro readDnsName_loop_cycle [of message a b]) (simp_all add: name_cursor_init_def)
    then show "readDnsName message a = Inl SafetyLimitExceeded"
      by (cases "readDnsName_loop message (name_cursor_init a)") (simp add: readDnsName_def)
  qed
qed

theorem readDnsName_iteration_cap_witness:
  "pointer_at [0xC0, 0x02, 0xC0, 0x00] 0 2 \<and> pointer_at [0xC0, 0x02, 0xC0, 0x00] 2 0 \<and>
   readDnsName [0xC0, 0x02, 0xC0, 0x00] 0 = Inl SafetyLimitExceeded \<and>
   safety (snd (readDnsName_loop [0xC0, 0x02, 0xC0, 0x00] (name_cursor_init 0))) \<le> 5"
proof -
  have p: "pointer_at [0xC0, 0x02, 0xC0, 0x00] 0 2" "pointer_at [0xC0, 0x02, 0xC0, 0x00] 2 0"
    by (simp_all add: pointer_at_def)
  from readDnsName_iteration_cap [of "[0xC0, 0x02, 0xC0, 0x00]" 0 0 2] p
  show ?thesis by simp
qed

text \<open>
  C1 as stated (the cap is the buffer length) fails: on the two-byte buffer \<open>C0 00\<close>,
  a pointer to itself, three iterations pass the guard before it throws.
\<close>

theorem readDnsName_cap_counterexample:
  "\<not> safety (snd (readDnsName_loop [0xC0, 0x00] (name_cursor_init 0))) \<le> length [0xC0, 0x00 :: byte]"
  by code_simp

text \<open>
  C8. When decoding succeeds, the returned length is the number of bytes the name
  occupies in the stream up to and including the root label or the first pointer (two
  bytes), whatever the pointer leads to; and once the loop has jumped, nothing it reads
  changes the length.
\<close>

theorem readDnsName_consumed:
  "(readDnsName message offset = Inr r \<longrightarrow> consumed r = bytesBeforeJump message offset) \<and>
   (jumped c \<longrightarrow> nlength (snd (readDnsName_loop message c)) = nlength c)"
proof
  show "readDnsName message offset = Inr r \<longrightarrow> consumed r = bytesBeforeJump message offset"
  proof
    assume ok: "readDnsName message offset = Inr r"
    let ?c = "name_cursor_init offset"
    from ok have none: "fst (readDnsName_loop message ?c) = None"
      by (auto simp: readDnsName_def split: prod.splits option.splits)
    from ok have "consumed r = nlength (snd (readDnsName_loop message ?c))"
      by (auto simp: readDnsName_def split: prod.splits option.splits)
    also have "\<dots> = nlength ?c + bytesBeforeJump message (currentOffset ?c)"
      by (rule readDnsName_loop_nlength [OF none]) (simp add: name_cursor_init_def)
    finally show "consumed r = bytesBeforeJump message offset"
      by (simp add: name_cursor_init_def)
  qed
next
  show "jumped c \<longrightarrow> nlength (snd (readDnsName_loop message c)) = nlength c"
    by (simp add: readDnsName_loop_jumped_nlength)
qed

theorem readDnsName_consumed_witness:
  "readDnsName [3, 0x77, 0x77, 0x77, 0xC0, 0x06, 1, 0x61, 0] 0
     = Inr \<lparr>name = ascii ''www.a'', consumed = 6\<rparr> \<and>
   bytesBeforeJump [3, 0x77, 0x77, 0x77, 0xC0, 0x06, 1, 0x61, 0] 0 = 6 \<and>
   nlength (snd (readDnsName_loop [3, 0x77, 0x77, 0x77, 0xC0, 0x06, 1, 0x61, 0]
     \<lparr>labels = [], nlength = 6, jumped = True, currentOffset = 6, safety = 2\<rparr>)) = 6"
proof -
  have h: "readDnsName [3, 0x77, 0x77, 0x77, 0xC0, 0x06, 1, 0x61, 0] 0
     = Inr \<lparr>name = ascii ''www.a'', consumed = 6\<rparr>"
    by code_simp
  from readDnsName_consumed [of "[3, 0x77, 0x77, 0x77, 0xC0, 0x06, 1, 0x61, 0]" 0
      "\<lparr>name = ascii ''www.a'', consumed = 6\<rparr>"
      "\<lparr>labels = [], nlength = 6, jumped = True, currentOffset = 6, safety = 2\<rparr>"] h
  show ?thesis by simp
qed

section \<open>Properties of the failure combiner\<close>

lemma firstSome_rev_map_last:
  "results \<noteq> [] \<Longrightarrow> f (last results) \<noteq> None \<Longrightarrow>
   firstSome (map f (rev results)) = f (last results)"
  by (cases results rule: rev_cases) auto

lemma combineDohFailures_status:
  assumes "results \<noteq> []"
  shows "status (combineDohFailures results) = firstSome (map status (rev results))"
    and "latency_ms (combineDohFailures results) = firstSome (map latency_ms (rev results))"
  using assms firstSome_rev_map_last [of results status]
    firstSome_rev_map_last [of results latency_ms]
  by (simp_all add: combineDohFailures_def Let_def)

lemma combineEchFailures_nonempty:
  "results \<noteq> [] \<Longrightarrow> (case results of [] \<Rightarrow> e | _ \<Rightarrow> last results) = last results"
  by (cases results) simp_all

lemma combineEchFailures_status:
  assumes "results \<noteq> []"
  shows "ech_status (combineEchFailures results) = firstSome (map ech_status (rev results))"
    and "ech_latency_ms (combineEchFailures results)
           = firstSome (map ech_latency_ms (rev results))"
  using assms firstSome_rev_map_last [of results ech_status]
    firstSome_rev_map_last [of results ech_latency_ms]
  by (simp_all add: combineEchFailures_def Let_def combineEchFailures_nonempty)

lemma combineDohFailures_shape:
  assumes "results \<noteq> []"
  shows "response_format (combineDohFailures results) =
           (if knownFormat (response_format (last results)) then response_format (last results)
            else firstKnownFormat (map response_format results))"
    and "content_type (combineDohFailures results) =
           (if truthy (content_type (last results)) then content_type (last results)
            else case find truthy (map content_type results) of Some t \<Rightarrow> t | None \<Rightarrow> None)"
    and "error (combineDohFailures results) =
           Some (if filterBoolean (map error results) = [] then msg_doh_failed
                 else join (ascii '' | '') (filterBoolean (map error results)))"
  using assms by (simp_all add: combineDohFailures_def Let_def firstKnownFormat_def)

lemma combineEchFailures_shape:
  assumes "results \<noteq> []"
  shows "ech_response_format (combineEchFailures results) =
           (if knownFormat (ech_response_format (last results))
            then ech_response_format (last results)
            else case find knownFormat (map ech_response_format results) of
                   Some f \<Rightarrow> f | None \<Rightarrow> ech_response_format (last results))"
    and "ech_content_type (combineEchFailures results) =
           (if truthy (ech_content_type (last results)) then ech_content_type (last results)
            else case find truthy (map ech_content_type results) of
                   Some t \<Rightarrow> t | None \<Rightarrow> None)"
    and "ech_error (combineEchFailures results) =
           Some (if filterBoolean (map ech_error results) = [] then msg_https_failed
                 else join (ascii '' | '') (filterBoolean (map ech_error results)))"
  using assms by (simp_all add: combineEchFailures_def Let_def combineEchFailures_nonempty)

text \<open>
  C7 (as the code has it). For a non-empty list of attempts, in both combiners: the
  status and the latency are the first non-null value scanning from the last attempt
  backward; the response shape is the last attempt's shape when that is known, and
  otherwise the first known shape in forward order; the content type is the last
  attempt's when that is a non-empty string, and otherwise the first non-empty one in
  forward order (\<open>null\<close> when there is none); the error is the non-empty error strings
  joined with \<open>" | "\<close>, or the default text when there is none.
\<close>

theorem combine_failures_merge:
  assumes "results \<noteq> []" and "eresults \<noteq> []"
  shows "status (combineDohFailures results) = firstSome (map status (rev results)) \<and>
     latency_ms (combineDohFailures results) = firstSome (map latency_ms (rev results)) \<and>
     response_format (combineDohFailures results) =
       (if knownFormat (response_format (last results)) then response_format (last results)
        else firstKnownFormat (map response_format results)) \<and>
     content_type (combineDohFailures results) =
       (if truthy (content_type (last results)) then content_type (last results)
        else case find truthy (map content_type results) of Some t \<Rightarrow> t | None \<Rightarrow> None) \<and>
     error (combineDohFailures results) =
       Some (if filterBoolean (map error results) = [] then msg_doh_failed
             else join (ascii '' | '') (filterBoolean (map error results))) \<and>
     ech_status (combineEchFailures eresults) = firstSome (map ech_status (rev eresults)) \<and>
     ech_latency_ms (combineEchFailures eresults)
       = firstSome (map ech_latency_ms (rev eresults)) \<and>
     ech_response_format (combineEchFailures eresults) =
       (if knownFormat (ech_response_format (last eresults))
        then ech_response_format (last eresults)
        else case find knownFormat (map ech_response_format eresults) of
               Some f \<Rightarrow> f | None \<Rightarrow> ech_response_format (last eresults)) \<and>
     ech_content_type (combineEchFailures eresults) =
       (if truthy (ech_content_type (last eresults)) then ech_content_type (last eresults)
        else case find truthy (map ech_content_type eresults) of
               Some t \<Rightarrow> t | None \<Rightarrow> None) \<and>
     ech_error (combineEchFailures eresults) =
       Some (if filterBoolean (map ech_error eresults) = [] then msg_https_failed
             else join (ascii '' | '') (filterBoolean (map ech_error eresults)))"
  using combineDohFailures_status [OF assms(1)] combineDohFailures_shape [OF assms(1)]
    combineEchFailures_status [OF assms(2)] combineEchFailures_shape [OF assms(2)]
  by (intro conjI)


theorem combine_failures_merge_witness:
  "[example_text_attempt, example_wire_attempt] \<noteq> [] \<and>
   [example_ech_text_attempt, example_ech_wire_attempt] \<noteq> [] \<and>
   status (combineDohFailures [example_text_attempt, example_wire_attempt]) = Some 200 \<and>
   response_format (combineDohFailures [example_text_attempt, example_wire_attempt])
     = Some FormatWire \<and>
   content_type (combineDohFailures [example_text_attempt, example_wire_attempt])
     = Some (ascii ''application/dns-message'') \<and>
   error (combineDohFailures [example_text_attempt, example_wire_attempt])
     = Some (ascii ''text response | no records'') \<and>
   ech_status (combineEchFailures [example_ech_text_attempt, example_ech_wire_attempt])
     = Some 404 \<and>
   ech_response_format (combineEchFailures [example_ech_text_attempt, example_ech_wire_attempt])
     = Some FormatText"
  using combine_failures_merge
    [of "[example_text_attempt, example_wire_attempt]"
        "[example_ech_text_attempt, example_ech_wire_attempt]"]
  by (simp add: example_text_attempt_def example_wire_attempt_def
      example_ech_text_attempt_def example_ech_wire_attempt_def firstKnownFormat_def ascii_def)

text \<open>
  C7 as stated fails for the response shape and the content type: with a first attempt
  answered by a text page and a last attempt answered by a DNS message, the combiner
  reports the last attempt's shape and content type, not the first known ones in
  forward order.
\<close>

theorem combine_failures_shape_counterexample:
  "response_format (combineDohFailures [example_text_attempt, example_wire_attempt])
     \<noteq> firstKnownFormat (map response_format [example_text_attempt, example_wire_attempt]) \<and>
   content_type (combineDohFailures [example_text_attempt, example_wire_attempt])
     \<noteq> firstContentType (map content_type [example_text_attempt, example_wire_attempt])"
  by (simp add: combineDohFailures_def Let_def firstKnownFormat_def firstContentType_def
      example_text_attempt_def example_wire_attempt_def ascii_def)

section \<open>Properties of the comparison engine\<close>

lemma str_includes_append: "str_includes (a @ needle @ b) needle"
proof (induction a)
  case Nil
  have "take (length needle) (needle @ b) = needle" by simp
  then show ?case by (cases "needle @ b") simp_all
next
  case (Cons x a)
  then show ?case by simp
qed

lemma str_includes_prefix: "str_includes (needle @ b) needle"
  using str_includes_append [of "[]" needle b] by simp

lemma computeEchMatch_note:
  "\<exists>n. snd (computeEchMatch t r ns l) = ns @ [n] \<and> str_includes n l"
  by (simp add: computeEchMatch_def str_includes_append str_includes_prefix)

lemma computeEchMatch_equal:
  "truthy t \<Longrightarrow> fst (computeEchMatch t t ns l) = Some True"
  by (simp add: computeEchMatch_def)

lemma computeEchMatch_reference_absent:
  "truthy t \<Longrightarrow> \<not> truthy r \<Longrightarrow> fst (computeEchMatch t r ns l) = None"
  by (simp add: computeEchMatch_def)

text \<open>
  C3. The overall \<open>consistent\<close> is \<open>true\<close> exactly when both reference matches are
  \<open>true\<close>, \<open>false\<close> exactly when one of them is \<open>false\<close>, and \<open>null\<close> otherwise. When
  the target's ECH string is present and equal to Cloudflare's and Google's is absent,
  the Cloudflare match is \<open>true\<close>, the Google match \<open>null\<close> and \<open>consistent\<close> is
  \<open>null\<close>. The notes are exactly two, the first naming Cloudflare and the second
  naming Google.
\<close>

theorem runDohEchComparison_consistent:
  assumes run: "runDohEchComparison tr cr gr targetEch cloudflareEch googleEch = Some cmp"
  shows "(consistent cmp = Some True \<longleftrightarrow>
            ech_matches_cloudflare cmp = Some True \<and> ech_matches_google cmp = Some True) \<and>
         (consistent cmp = Some False \<longleftrightarrow>
            ech_matches_cloudflare cmp = Some False \<or> ech_matches_google cmp = Some False) \<and>
         (truthy targetEch \<and> cloudflareEch = targetEch \<and> \<not> truthy googleEch \<longrightarrow>
            ech_matches_cloudflare cmp = Some True \<and> ech_matches_google cmp = None \<and>
            consistent cmp = None) \<and>
         (\<exists>n1 n2. cmp_notes cmp = [n1, n2] \<and> str_includes n1 (ascii ''Cloudflare'') \<and>
            str_includes n2 (ascii ''Google''))"
proof -
  obtain mc ns1 where c1:
    "computeEchMatch targetEch cloudflareEch [] (ascii ''Cloudflare'') = (mc, ns1)"
    by (cases "computeEchMatch targetEch cloudflareEch [] (ascii ''Cloudflare'')")
  obtain mg ns2 where c2:
    "computeEchMatch targetEch googleEch ns1 (ascii ''Google'') = (mg, ns2)"
    by (cases "computeEchMatch targetEch googleEch ns1 (ascii ''Google'')")
  from run c1 c2 have cmp_eq:
    "cmp = \<lparr>cmp_target = tr, cmp_cloudflare = cr, cmp_google = gr,
            ech_matches_cloudflare = mc, ech_matches_google = mg,
            consistent =
              (if mc \<noteq> None \<and> mg \<noteq> None then Some (mc = Some True \<and> mg = Some True)
               else if mc \<noteq> None \<or> mg \<noteq> None
                 then (if mc = Some False \<or> mg = Some False then Some False else None)
               else None),
            cmp_notes = ns2\<rparr>"
    by (simp add: runDohEchComparison_def del: not_None_eq)
  have fields:
    "ech_matches_cloudflare cmp = mc" "ech_matches_google cmp = mg" "cmp_notes cmp = ns2"
    "consistent cmp =
       (if mc \<noteq> None \<and> mg \<noteq> None then Some (mc = Some True \<and> mg = Some True)
        else if mc \<noteq> None \<or> mg \<noteq> None
          then (if mc = Some False \<or> mg = Some False then Some False else None)
        else None)"
    by (subst cmp_eq, simp del: not_None_eq)+
  have a: "consistent cmp = Some True \<longleftrightarrow>
            ech_matches_cloudflare cmp = Some True \<and> ech_matches_google cmp = Some True"
    unfolding fields by (cases mc; cases mg) auto
  have b: "consistent cmp = Some False \<longleftrightarrow>
            ech_matches_cloudflare cmp = Some False \<or> ech_matches_google cmp = Some False"
    unfolding fields by (cases mc; cases mg) auto
  have c: "truthy targetEch \<and> cloudflareEch = targetEch \<and> \<not> truthy googleEch \<longrightarrow>
            ech_matches_cloudflare cmp = Some True \<and> ech_matches_google cmp = None \<and>
            consistent cmp = None"
  proof
    assume h: "truthy targetEch \<and> cloudflareEch = targetEch \<and> \<not> truthy googleEch"
    have "mc = Some True"
      using computeEchMatch_equal [of targetEch "[]" "ascii ''Cloudflare''"] h c1 by simp
    moreover have "mg = None"
      using computeEchMatch_reference_absent [of targetEch googleEch ns1 "ascii ''Google''"] h c2
      by simp
    ultimately show "ech_matches_cloudflare cmp = Some True \<and> ech_matches_google cmp = None \<and>
            consistent cmp = None"
      unfolding fields by simp
  qed
  have d: "\<exists>n1 n2. cmp_notes cmp = [n1, n2] \<and> str_includes n1 (ascii ''Cloudflare'') \<and>
            str_includes n2 (ascii ''Google'')"
  proof -
    obtain n1 where n1: "ns1 = [] @ [n1]" "str_includes n1 (ascii ''Cloudflare'')"
      using computeEchMatch_note [of targetEch cloudflareEch "[]" "ascii ''Cloudflare''"] c1
      by auto
    obtain n2 where n2: "ns2 = ns1 @ [n2]" "str_includes n2 (ascii ''Google'')"
      using computeEchMatch_note [of targetEch googleEch ns1 "ascii ''Google''"] c2
      by auto
    from n1 n2 show ?thesis unfolding fields by simp
  qed
  from a b c d show ?thesis by blast
qed

theorem runDohEchComparison_consistent_witness:
  "\<exists>cmp. runDohEchComparison (example_ech_result (Some (ascii ''ech=AEF'')))
       (example_ech_result (Some (ascii ''ech=AEF''))) (example_ech_result None)
       (Some (ascii ''AEF'')) (Some (ascii ''AEF'')) None = Some cmp \<and>
     truthy (Some (ascii ''AEF'')) \<and> \<not> truthy None \<and>
     ech_matches_cloudflare cmp = Some True \<and> ech_matches_google cmp = None \<and>
     consistent cmp = None \<and> length (cmp_notes cmp) = 2"
proof -
  obtain cmp where run:
    "runDohEchComparison (example_ech_result (Some (ascii ''ech=AEF'')))
       (example_ech_result (Some (ascii ''ech=AEF''))) (example_ech_result None)
       (Some (ascii ''AEF'')) (Some (ascii ''AEF'')) None = Some cmp"
    by (cases "runDohEchComparison (example_ech_result (Some (ascii ''ech=AEF'')))
       (example_ech_result (Some (ascii ''ech=AEF''))) (example_ech_result None)
       (Some (ascii ''AEF'')) (Some (ascii ''AEF'')) None")
      (simp_all add: runDohEchComparison_def split: prod.splits)
  have t: "truthy (Some (ascii ''AEF''))" "\<not> truthy None"
    by (simp_all add: ascii_def)
  from runDohEchComparison_consistent [OF run] t
  have "ech_matches_cloudflare cmp = Some True \<and> ech_matches_google cmp = None \<and>
     consistent cmp = None \<and> length (cmp_notes cmp) = 2"
    by auto
  with run t show ?thesis by blast
qed

lemma fold_setAdd_set: "set (fold setAdd xs acc) = set xs \<union> set acc"
  by (induction xs arbitrary: acc) (auto simp: setAdd_def)

lemma fold_setAdd_distinct: "distinct acc \<Longrightarrow> distinct (fold setAdd xs acc)"
  by (induction xs arbitrary: acc) (auto simp: setAdd_def)

lemma set_newSet: "set (newSet xs) = set xs"
  by (simp add: newSet_def fold_setAdd_set)

lemma distinct_newSet: "distinct (newSet xs)"
  by (simp add: newSet_def fold_setAdd_distinct)

lemma allIn_subset: "allIn a b \<longleftrightarrow> set a \<subseteq> set b"
  by (induction a) auto

lemma setsAreEqual_iff:
  assumes "distinct a" and "distinct b"
  shows "setsAreEqual a b \<longleftrightarrow> set a = set b"
proof
  assume eq: "setsAreEqual a b"
  then have len: "length a = length b" and sub: "set a \<subseteq> set b"
    by (auto simp: setsAreEqual_def allIn_subset split: if_splits)
  from len assms have "card (set a) = card (set b)"
    by (simp add: distinct_card)
  with sub show "set a = set b"
    by (intro card_subset_eq) simp_all
next
  assume eq: "set a = set b"
  then have "card (set a) = card (set b)" by simp
  with assms have "length a = length b" by (simp add: distinct_card)
  with eq show "setsAreEqual a b" by (simp add: setsAreEqual_def allIn_subset)
qed

lemma setsAreEqual_newSet: "setsAreEqual (newSet xs) (newSet ys) \<longleftrightarrow> set xs = set ys"
  by (simp add: setsAreEqual_iff distinct_newSet set_newSet)

lemma echMessageSuffix_empty:
  "echMessageSuffix ec = [] \<longleftrightarrow> (\<forall>c. ec = Some c \<longrightarrow> consistent c = None)"
proof (cases ec)
  case None
  then show ?thesis by (simp add: echMessageSuffix_def)
next
  case (Some c)
  then show ?thesis
    by (cases "consistent c")
       (auto simp: echMessageSuffix_def msg_ech_inconsistent_def msg_ech_consistent_def)
qed

text \<open>
  C2 (as the code has it). The status follows the four-way matrix of the claim, where a
  reference matches when it is ok and its addresses are the same set as the target's.
  The message is the text of the matrix (the target's own error when the target is not
  ok, or a default text when it carries none) followed by the sentence on the ECH
  comparison; that sentence is empty exactly when there is no comparison or its
  \<open>consistent\<close> is \<open>null\<close>.
\<close>

theorem runDohCheck_status_matrix:
  "(let r = runDohCheck t cf g ec;
        mc = (ok cf \<and> set (ips t) = set (ips cf));
        mg = (ok g \<and> set (ips t) = set (ips g))
    in (matches_cloudflare r = (ok t \<and> mc)) \<and> (matches_google r = (ok t \<and> mg)) \<and>
       (\<not> ok t \<longrightarrow> api_status r = StatusFailure \<and>
          api_message r = (case error t of Some e \<Rightarrow> e | None \<Rightarrow> msg_target_query_failed)
                            @ echMessageSuffix ec) \<and>
       (ok t \<and> mc \<and> mg \<longrightarrow> api_status r = StatusSuccess \<and>
          api_message r = msg_all_match @ echMessageSuffix ec) \<and>
       (ok t \<and> mc \<and> \<not> mg \<longrightarrow> api_status r = StatusPartialMatch \<and>
          api_message r = msg_matches_cloudflare @ echMessageSuffix ec) \<and>
       (ok t \<and> \<not> mc \<and> mg \<longrightarrow> api_status r = StatusPartialMatch \<and>
          api_message r = msg_matches_google @ echMessageSuffix ec) \<and>
       (ok t \<and> \<not> mc \<and> \<not> mg \<longrightarrow> api_status r = StatusFailure \<and>
          api_message r = msg_mismatch @ echMessageSuffix ec) \<and>
       (echMessageSuffix ec = [] \<longleftrightarrow> (\<forall>c. ec = Some c \<longrightarrow> consistent c = None)))"
proof -
  define A where "A \<longleftrightarrow> set (ips t) = set (ips cf)"
  define B where "B \<longleftrightarrow> set (ips t) = set (ips g)"
  have sa: "setsAreEqual (newSet (ips t)) (newSet (ips cf)) = A"
    and sb: "setsAreEqual (newSet (ips t)) (newSet (ips g)) = B"
    by (simp_all add: setsAreEqual_newSet A_def B_def)
  have "matches_cloudflare (runDohCheck t cf g ec) = (ok t \<and> ok cf \<and> A)"
    and "matches_google (runDohCheck t cf g ec) = (ok t \<and> ok g \<and> B)"
    and "\<not> ok t \<longrightarrow> api_status (runDohCheck t cf g ec) = StatusFailure \<and>
          api_message (runDohCheck t cf g ec)
            = (case error t of Some e \<Rightarrow> e | None \<Rightarrow> msg_target_query_failed)
                @ echMessageSuffix ec"
    and "ok t \<and> (ok cf \<and> A) \<and> (ok g \<and> B) \<longrightarrow>
          api_status (runDohCheck t cf g ec) = StatusSuccess \<and>
          api_message (runDohCheck t cf g ec) = msg_all_match @ echMessageSuffix ec"
    and "ok t \<and> (ok cf \<and> A) \<and> \<not> (ok g \<and> B) \<longrightarrow>
          api_status (runDohCheck t cf g ec) = StatusPartialMatch \<and>
          api_message (runDohCheck t cf g ec) = msg_matches_cloudflare @ echMessageSuffix ec"
    and "ok t \<and> \<not> (ok cf \<and> A) \<and> (ok g \<and> B) \<longrightarrow>
          api_status (runDohCheck t cf g ec) = StatusPartialMatch \<and>
          api_message (runDohCheck t cf g ec) = msg_matches_google @ echMessageSuffix ec"
    and "ok t \<and> \<not> (ok cf \<and> A) \<and> \<not> (ok g \<and> B) \<longrightarrow>
          api_status (runDohCheck t cf g ec) = StatusFailure \<and>
          api_message (runDohCheck t cf g ec) = msg_mismatch @ echMessageSuffix ec"
    by (auto simp: runDohCheck_def Let_def sa sb)
  then show ?thesis
    unfolding Let_def A_def B_def using echMessageSuffix_empty [of ec] by blast
qed

theorem runDohCheck_status_matrix_witness:
  "api_status (runDohCheck (example_ok_result [ascii ''93.184.216.34''])
       (example_ok_result [ascii ''93.184.216.34'']) (example_ok_result [ascii ''1.2.3.4''])
       None) = StatusPartialMatch \<and>
   api_message (runDohCheck (example_ok_result [ascii ''93.184.216.34''])
       (example_ok_result [ascii ''93.184.216.34'']) (example_ok_result [ascii ''1.2.3.4''])
       None) = msg_matches_cloudflare \<and>
   api_status (runDohCheck (example_ok_result [ascii ''1.2.3.4''])
       (example_ok_result [ascii ''93.184.216.34'']) (example_ok_result [ascii ''1.2.3.4''])
       None) = StatusPartialMatch \<and>
   api_message (runDohCheck (example_ok_result [ascii ''1.2.3.4''])
       (example_ok_result [ascii ''93.184.216.34'']) (example_ok_result [ascii ''1.2.3.4''])
       None) = msg_matches_google \<and>
   api_status (runDohCheck (example_ok_result [ascii ''1.1.1.1'', ascii ''8.8.8.8''])
       (example_ok_result [ascii ''8.8.8.8'', ascii ''1.1.1.1''])
       (example_ok_result [ascii ''8.8.8.8'', ascii ''1.1.1.1'', ascii ''8.8.8.8''])
       None) = StatusSuccess \<and>
   api_status (runDohCheck (example_ok_result [ascii ''1.1.1.1''])
       (example_ok_result [ascii ''8.8.8.8'']) (example_failed_result (ascii ''timeout''))
       None) = StatusFailure \<and>
   api_message (runDohCheck (example_ok_result [ascii ''1.1.1.1''])
       (example_ok_result [ascii ''8.8.8.8'']) (example_failed_result (ascii ''timeout''))
       None) = msg_mismatch \<and>
   api_status (runDohCheck (example_failed_result (ascii ''timeout''))
       (example_ok_result [ascii ''8.8.8.8'']) (example_ok_result [ascii ''8.8.8.8''])
       None) = StatusFailure \<and>
   api_message (runDohCheck (example_failed_result (ascii ''timeout''))
       (example_ok_result [ascii ''8.8.8.8'']) (example_ok_result [ascii ''8.8.8.8''])
       None) = ascii ''timeout''"
  using
    runDohCheck_status_matrix [of "example_ok_result [ascii ''93.184.216.34'']"
      "example_ok_result [ascii ''93.184.216.34'']" "example_ok_result [ascii ''1.2.3.4'']" None]
    runDohCheck_status_matrix [of "example_ok_result [ascii ''1.2.3.4'']"
      "example_ok_result [ascii ''93.184.216.34'']" "example_ok_result [ascii ''1.2.3.4'']" None]
    runDohCheck_status_matrix [of "example_ok_result [ascii ''1.1.1.1'', ascii ''8.8.8.8'']"
      "example_ok_result [ascii ''8.8.8.8'', ascii ''1.1.1.1'']"
      "example_ok_result [ascii ''8.8.8.8'', ascii ''1.1.1.1'', ascii ''8.8.8.8'']" None]
    runDohCheck_status_matrix [of "example_ok_result [ascii ''1.1.1.1'']"
      "example_ok_result [ascii ''8.8.8.8'']" "example_failed_result (ascii ''timeout'')" None]
    runDohCheck_status_matrix [of "example_failed_result (ascii ''timeout'')"
      "example_ok_result [ascii ''8.8.8.8'']" "example_ok_result [ascii ''8.8.8.8'']" None]
  by (auto simp: Let_def example_ok_result_def example_failed_result_def ascii_def
      echMessageSuffix_def)

text \<open>
  C2 as stated fails for the message: the target query timed out, the two references
  agree, and the ECH comparison found the target without a configuration that both
  references have. The reported message is the target's error followed by the sentence
  on the ECH comparison, not the target's error alone.
\<close>

theorem runDohCheck_message_counterexample:
  "\<not> ok (example_failed_result (ascii ''timeout'')) \<and>
   error (example_failed_result (ascii ''timeout'')) = Some (ascii ''timeout'') \<and>
   api_message (runDohCheck (example_failed_result (ascii ''timeout''))
       (example_ok_result [ascii ''8.8.8.8'']) (example_ok_result [ascii ''8.8.8.8''])
       (runDohEchComparison (example_ech_result None)
          (example_ech_result (Some (ascii ''ech=AEF'')))
          (example_ech_result (Some (ascii ''ech=AEF'')))
          None (Some (ascii ''AEF'')) (Some (ascii ''AEF''))))
     \<noteq> ascii ''timeout''"
  by (simp add: runDohCheck_def runDohEchComparison_def computeEchMatch_def Let_def
      echMessageSuffix_def example_failed_result_def example_ok_result_def
      msg_ech_inconsistent_def ascii_def)

section \<open>Properties of the HTTPS record decoder\<close>

lemma getUint16_region:
  assumes "i + 1 < m" and "a + m \<le> length message"
  shows "getUint16 (take m (drop a message)) i = getUint16 message (a + i)"
  using assms by (simp add: getUint16_def add.assoc)

lemma base64_groups_empty: "base64_groups xs = [] \<longleftrightarrow> xs = []"
  by (cases xs rule: base64_groups.cases) simp_all

lemma bytesToBase64_empty: "bytesToBase64 v = [] \<longleftrightarrow> v = []"
  by (simp add: bytesToBase64_def base64_groups_empty)

lemma svcb_loop_params:
  assumes "offset + rdlength \<le> length message"
  shows "hasEch (svcb_loop message offset rdlength s) =
           (hasEch s \<or> (\<exists>v. (5, v) \<in> set (svcbParams
              (take (rdlength - cursor s) (drop (offset + cursor s) message))))) \<and>
         echBase64 (svcb_loop message offset rdlength s) =
           (case echValue (svcbParams
              (take (rdlength - cursor s) (drop (offset + cursor s) message))) of
              Some v \<Rightarrow> Some (bytesToBase64 v) | None \<Rightarrow> echBase64 s)"
  using assms
proof (induction message offset rdlength s rule: svcb_loop.induct)
  case (1 message offset rdlength s)
  let ?region = "take (rdlength - cursor s) (drop (offset + cursor s) message)"
  let ?key = "getUint16 message (offset + cursor s)"
  let ?vl = "getUint16 message (offset + cursor s + 2)"
  have inb: "offset + rdlength \<le> length message" by (rule "1.prems")
  consider (finished) "\<not> cursor s < rdlength"
    | (short) "cursor s < rdlength" "cursor s + 4 > rdlength"
    | (over) "cursor s < rdlength" "\<not> cursor s + 4 > rdlength" "cursor s + 4 + ?vl > rdlength"
    | (step) "cursor s < rdlength" "\<not> cursor s + 4 > rdlength" "\<not> cursor s + 4 + ?vl > rdlength"
    by blast
  then show ?case
  proof cases
    case finished
    then have "svcbParams ?region = []" by (subst svcbParams.simps) simp
    moreover have "svcb_loop message offset rdlength s = s"
      using finished by (subst svcb_loop.simps) simp
    ultimately show ?thesis by simp
  next
    case short
    then have "svcbParams ?region = []" by (subst svcbParams.simps) simp
    moreover have "svcb_loop message offset rdlength s = s"
      using short by (subst svcb_loop.simps) simp
    ultimately show ?thesis by simp
  next
    case over
    have len: "length ?region = rdlength - cursor s" using inb over by simp
    have vl: "getUint16 ?region 2 = ?vl"
      using getUint16_region [of 2 "rdlength - cursor s" "offset + cursor s" message] inb over
      by (simp add: add.assoc)
    have "svcbParams ?region = []"
      using over len vl by (subst svcbParams.simps) simp
    moreover have "svcb_loop message offset rdlength s = s\<lparr>cursor := cursor s + 4\<rparr>"
      using over by (subst svcb_loop.simps) simp
    ultimately show ?thesis by simp
  next
    case step
    let ?s' = "s\<lparr>cursor := cursor s + 4 + ?vl,
                   hasEch := (if ?key = 5 then True else hasEch s),
                   echBase64 :=
                     (if ?key = 5
                      then Some (bytesToBase64 (take ?vl (drop (offset + cursor s + 4) message)))
                      else echBase64 s),
                   params := params s @
                     [ascii ''key'' @ decimal ?key @ ascii ''('' @ decimal ?vl @ ascii ''B)'']\<rparr>"
    let ?region' = "take (rdlength - cursor ?s') (drop (offset + cursor ?s') message)"
    have len: "length ?region = rdlength - cursor s" using inb step by simp
    have vl: "getUint16 ?region 2 = ?vl"
      using getUint16_region [of 2 "rdlength - cursor s" "offset + cursor s" message] inb step
      by (simp add: add.assoc)
    have key: "getUint16 ?region 0 = ?key"
      using getUint16_region [of 0 "rdlength - cursor s" "offset + cursor s" message] inb step
      by simp
    have val: "take ?vl (drop 4 ?region) = take ?vl (drop (offset + cursor s + 4) message)"
      using step by (simp add: drop_take min_def add.commute add.left_commute)
    have rest: "drop (4 + ?vl) ?region = ?region'"
      by (simp add: drop_take ac_simps)
    have unfold: "svcbParams ?region =
        (?key, take ?vl (drop (offset + cursor s + 4) message)) # svcbParams ?region'"
      using step len by (subst svcbParams.simps) (simp only: vl key val rest, simp)
    have loop: "svcb_loop message offset rdlength s = svcb_loop message offset rdlength ?s'"
      using step by (subst svcb_loop.simps) simp
    have ih: "hasEch (svcb_loop message offset rdlength ?s') =
           (hasEch ?s' \<or> (\<exists>v. (5, v) \<in> set (svcbParams ?region'))) \<and>
         echBase64 (svcb_loop message offset rdlength ?s') =
           (case echValue (svcbParams ?region') of
              Some v \<Rightarrow> Some (bytesToBase64 v) | None \<Rightarrow> echBase64 ?s')"
      using step inb by (intro "1.IH") simp_all
    show ?thesis
      unfolding loop unfold using ih by (auto split: option.splits)
  qed
qed

lemma echValue_None: "echValue ts = None \<longleftrightarrow> (\<forall>v. (5, v) \<notin> set ts)"
  by (induction ts rule: echValue.induct) (auto split: option.splits)

lemma parseHttpsSvcbRecord_ech:
  assumes inb: "offset + rdlength \<le> length message" and big: "4 \<le> rdlength"
    and nm: "readDnsName message (offset + 2) = Inr nameInfo"
    and res: "parseHttpsSvcbRecord message offset rdlength = Inr r"
  shows "has_ech r \<longleftrightarrow>
           (\<exists>v. (5, v) \<in> set (svcbParams (take (rdlength - (2 + consumed nameInfo))
                                   (drop (offset + (2 + consumed nameInfo)) message))))"
    and "has_ech r \<longrightarrow>
           (\<exists>v pre. echValue (svcbParams (take (rdlength - (2 + consumed nameInfo))
                                   (drop (offset + (2 + consumed nameInfo)) message))) = Some v \<and>
              description r = pre @ (if v \<noteq> [] then ascii '' echconfig(base64)='' @ bytesToBase64 v
                                     else ascii '' echconfig''))"
proof -
  let ?init = "\<lparr>cursor = 2 + consumed nameInfo, params = [], hasEch = False, echBase64 = None\<rparr>"
  let ?s = "svcb_loop message offset rdlength ?init"
  let ?ts = "svcbParams (take (rdlength - (2 + consumed nameInfo))
                                   (drop (offset + (2 + consumed nameInfo)) message))"
  have loop: "hasEch ?s = (\<exists>v. (5, v) \<in> set ?ts)"
    "echBase64 ?s = (case echValue ?ts of Some v \<Rightarrow> Some (bytesToBase64 v) | None \<Rightarrow> None)"
    using svcb_loop_params [OF inb, of ?init] by (simp_all split: option.splits)
  have he: "has_ech r = hasEch ?s"
    using res inb big nm by (auto simp: parseHttpsSvcbRecord_def Let_def)
  show "has_ech r \<longleftrightarrow> (\<exists>v. (5, v) \<in> set ?ts)"
    using he loop(1) by simp
  show "has_ech r \<longrightarrow>
           (\<exists>v pre. echValue ?ts = Some v \<and>
              description r = pre @ (if v \<noteq> [] then ascii '' echconfig(base64)='' @ bytesToBase64 v
                                     else ascii '' echconfig''))"
  proof
    assume h: "has_ech r"
    with he loop(1) obtain v where v: "echValue ?ts = Some v"
      using echValue_None [of ?ts] by (cases "echValue ?ts") auto
    have b: "echBase64 ?s = Some (bytesToBase64 v)" using loop(2) v by simp
    have "\<exists>pre. description r = pre @ (if v \<noteq> [] then ascii '' echconfig(base64)='' @ bytesToBase64 v
                                     else ascii '' echconfig'')"
      using res inb big nm h he b
      by (auto simp: parseHttpsSvcbRecord_def Let_def bytesToBase64_empty)
    with v show "\<exists>v pre. echValue ?ts = Some v \<and>
              description r = pre @ (if v \<noteq> [] then ascii '' echconfig(base64)='' @ bytesToBase64 v
                                     else ascii '' echconfig'')"
      by blast
  qed
qed

lemma httpsAnswers_truncated:
  assumes "readDnsName message offset = Inr nameInfo"
    and "offset + consumed nameInfo + 10 > length message \<or>
         offset + consumed nameInfo + 10 + getUint16 message (offset + consumed nameInfo + 8)
           > length message"
  shows "httpsAnswers message (Suc n) offset = []"
    and "httpsAnswers_loop message (Suc n) offset fb =
           Inr \<lparr>lookup_found = False, lookup_record = fb, lookup_error = None\<rparr>"
  using assms by (auto simp: Let_def)

lemma httpsAnswers_loop_found:
  "httpsAnswers message n offset = map Inr pre @ Inr r # rest \<Longrightarrow>
   \<forall>x\<in>set pre. \<not> has_ech x \<Longrightarrow> has_ech r \<Longrightarrow>
   httpsAnswers_loop message n offset fb =
     Inr \<lparr>lookup_found = True, lookup_record = Some (description r), lookup_error = None\<rparr>"
proof (induction n arbitrary: offset fb pre)
  case 0
  then show ?case by simp
next
  case (Suc n)
  show ?case
  proof (cases "readDnsName message offset")
    case (Inl e)
    with Suc.prems(1) show ?thesis by (cases pre) simp_all
  next
    case (Inr nameInfo)
    let ?p = "offset + consumed nameInfo"
    let ?rdlength = "getUint16 message (?p + 8)"
    show ?thesis
    proof (cases "?p + 10 > length message \<or> ?p + 10 + ?rdlength > length message")
      case True
      from httpsAnswers_truncated(1) [OF Inr True, of n] Suc.prems(1) show ?thesis by simp
    next
      case inrange: False
      show ?thesis
      proof (cases "getUint16 message ?p = 65")
        case False
        with Suc.prems Inr inrange Suc.IH [of "?p + 10 + ?rdlength" pre fb]
        show ?thesis by (simp add: Let_def)
      next
        case True
        show ?thesis
        proof (cases "parseHttpsSvcbRecord message (?p + 10) ?rdlength")
          case (Inl e)
          with Suc.prems(1) Inr inrange True show ?thesis
            by (cases pre) (simp_all add: Let_def)
        next
          case parsed: (Inr x)
          have items: "httpsAnswers message (Suc n) offset =
                         Inr x # httpsAnswers message n (?p + 10 + ?rdlength)"
            using Inr inrange True parsed by (simp add: Let_def)
          show ?thesis
          proof (cases pre)
            case Nil
            with items Suc.prems have "x = r" by simp
            with Suc.prems(3) Inr inrange True parsed show ?thesis
              by (simp add: Let_def)
          next
            case (Cons y pre')
            with items Suc.prems have x: "x = y" "\<not> has_ech x"
              and tl: "httpsAnswers message n (?p + 10 + ?rdlength) = map Inr pre' @ Inr r # rest"
              and pre': "\<forall>x\<in>set pre'. \<not> has_ech x"
              by simp_all
            from Suc.IH [OF tl pre' Suc.prems(3)] x Inr inrange True parsed
            show ?thesis by (simp add: Let_def)
          qed
        qed
      qed
    qed
  qed
qed

lemma httpsAnswers_loop_fallback:
  "httpsAnswers message n offset = map Inr rs \<Longrightarrow> \<forall>x\<in>set rs. \<not> has_ech x \<Longrightarrow>
   httpsAnswers_loop message n offset fb =
     Inr \<lparr>lookup_found = False,
          lookup_record =
            (if truthy fb then fb
             else case find (\<lambda>x. description x \<noteq> []) rs of
                    Some x \<Rightarrow> Some (description x) | None \<Rightarrow> fb),
          lookup_error = None\<rparr>"
proof (induction n arbitrary: offset fb rs)
  case 0
  then show ?case by simp
next
  case (Suc n)
  show ?case
  proof (cases "readDnsName message offset")
    case (Inl e)
    with Suc.prems(1) show ?thesis by (cases rs) simp_all
  next
    case (Inr nameInfo)
    let ?p = "offset + consumed nameInfo"
    let ?rdlength = "getUint16 message (?p + 8)"
    show ?thesis
    proof (cases "?p + 10 > length message \<or> ?p + 10 + ?rdlength > length message")
      case True
      from httpsAnswers_truncated(1) [OF Inr True, of n] Suc.prems(1) have "rs = []" by simp
      with httpsAnswers_truncated(2) [OF Inr True, of n fb] show ?thesis by simp
    next
      case inrange: False
      show ?thesis
      proof (cases "getUint16 message ?p = 65")
        case False
        with Suc.prems Inr inrange Suc.IH [of "?p + 10 + ?rdlength" rs fb]
        show ?thesis by (simp add: Let_def)
      next
        case True
        show ?thesis
        proof (cases "parseHttpsSvcbRecord message (?p + 10) ?rdlength")
          case (Inl e)
          with Suc.prems(1) Inr inrange True show ?thesis
            by (cases rs) (simp_all add: Let_def)
        next
          case parsed: (Inr x)
          have items: "httpsAnswers message (Suc n) offset =
                         Inr x # httpsAnswers message n (?p + 10 + ?rdlength)"
            using Inr inrange True parsed by (simp add: Let_def)
          with Suc.prems obtain rs' where rs: "rs = x # rs'"
            and tl: "httpsAnswers message n (?p + 10 + ?rdlength) = map Inr rs'"
            by (cases rs) auto
          from rs Suc.prems(2) have nx: "\<not> has_ech x" and rs': "\<forall>x\<in>set rs'. \<not> has_ech x"
            by simp_all
          from Suc.IH [OF tl rs'] nx Inr inrange True parsed rs
          show ?thesis by (cases fb) (auto simp: Let_def)
        qed
      qed
    qed
  qed
qed

text \<open>
  C6 (as the code has it). For an HTTPS record whose data lie inside the message, are
  at least four bytes long and whose target name decodes: \<open>has_ech\<close> holds exactly
  when one of the parameter triples read from the bytes after the target name has key
  5, and then the description ends with the base64 text of the value of the last such
  triple (with the bare word \<open>echconfig\<close> when that value is empty). Across a message
  whose question section decodes: when the HTTPS answers read so far are free of
  errors and one of them has ECH, the first such record is returned as found; when all
  HTTPS answers decode and none has ECH, the fallback is the first of them whose
  description is not empty (a record of fewer than four bytes has an empty one).
\<close>

theorem https_record_ech_detection:
  "(offset + rdlength \<le> length message \<and> 4 \<le> rdlength \<and>
    readDnsName message (offset + 2) = Inr nameInfo \<and>
    parseHttpsSvcbRecord message offset rdlength = Inr r \<longrightarrow>
      (has_ech r \<longleftrightarrow>
         (\<exists>v. (5, v) \<in> set (svcbParams (take (rdlength - (2 + consumed nameInfo))
                                 (drop (offset + (2 + consumed nameInfo)) message))))) \<and>
      (has_ech r \<longrightarrow>
         (\<exists>v pre. echValue (svcbParams (take (rdlength - (2 + consumed nameInfo))
                                 (drop (offset + (2 + consumed nameInfo)) message))) = Some v \<and>
            description r = pre @ (if v \<noteq> [] then ascii '' echconfig(base64)='' @ bytesToBase64 v
                                   else ascii '' echconfig'')))) \<and>
   (12 \<le> length reply \<and> skipQuestions reply (getUint16 reply 4) 12 = Inr start \<and>
    httpsAnswers reply (getUint16 reply 6) start = map Inr before @ Inr x # rest \<and>
    (\<forall>y\<in>set before. \<not> has_ech y) \<and> has_ech x \<longrightarrow>
      findHttpsRecordInDnsMessage reply =
        \<lparr>lookup_found = True, lookup_record = Some (description x), lookup_error = None\<rparr>) \<and>
   (12 \<le> length reply2 \<and> skipQuestions reply2 (getUint16 reply2 4) 12 = Inr start2 \<and>
    httpsAnswers reply2 (getUint16 reply2 6) start2 = map Inr rs \<and>
    (\<forall>y\<in>set rs. \<not> has_ech y) \<longrightarrow>
      findHttpsRecordInDnsMessage reply2 =
        \<lparr>lookup_found = False,
         lookup_record = (case find (\<lambda>y. description y \<noteq> []) rs of
                            Some y \<Rightarrow> Some (description y) | None \<Rightarrow> None),
         lookup_error = None\<rparr>)"
proof (intro conjI impI)
  assume h: "offset + rdlength \<le> length message \<and> 4 \<le> rdlength \<and>
    readDnsName message (offset + 2) = Inr nameInfo \<and>
    parseHttpsSvcbRecord message offset rdlength = Inr r"
  then have inb: "offset + rdlength \<le> length message" and big: "4 \<le> rdlength"
    and nm: "readDnsName message (offset + 2) = Inr nameInfo"
    and res: "parseHttpsSvcbRecord message offset rdlength = Inr r"
    by simp_all
  show "has_ech r \<longleftrightarrow>
         (\<exists>v. (5, v) \<in> set (svcbParams (take (rdlength - (2 + consumed nameInfo))
                                 (drop (offset + (2 + consumed nameInfo)) message))))"
    by (rule parseHttpsSvcbRecord_ech(1) [OF inb big nm res])
  assume "has_ech r"
  then show "\<exists>v pre. echValue (svcbParams (take (rdlength - (2 + consumed nameInfo))
                                 (drop (offset + (2 + consumed nameInfo)) message))) = Some v \<and>
            description r = pre @ (if v \<noteq> [] then ascii '' echconfig(base64)='' @ bytesToBase64 v
                                   else ascii '' echconfig'')"
    using parseHttpsSvcbRecord_ech(2) [OF inb big nm res] by blast
next
  assume h: "12 \<le> length reply \<and> skipQuestions reply (getUint16 reply 4) 12 = Inr start \<and>
    httpsAnswers reply (getUint16 reply 6) start = map Inr before @ Inr x # rest \<and>
    (\<forall>y\<in>set before. \<not> has_ech y) \<and> has_ech x"
  then have "httpsAnswers_loop reply (getUint16 reply 6) start None =
     Inr \<lparr>lookup_found = True, lookup_record = Some (description x), lookup_error = None\<rparr>"
    by (intro httpsAnswers_loop_found [of reply _ start before x rest]) simp_all
  with h show "findHttpsRecordInDnsMessage reply =
        \<lparr>lookup_found = True, lookup_record = Some (description x), lookup_error = None\<rparr>"
    by (simp add: findHttpsRecordInDnsMessage_def)
next
  assume h: "12 \<le> length reply2 \<and> skipQuestions reply2 (getUint16 reply2 4) 12 = Inr start2 \<and>
    httpsAnswers reply2 (getUint16 reply2 6) start2 = map Inr rs \<and>
    (\<forall>y\<in>set rs. \<not> has_ech y)"
  then have "httpsAnswers_loop reply2 (getUint16 reply2 6) start2 None =
     Inr \<lparr>lookup_found = False,
          lookup_record =
            (if truthy None then None
             else case find (\<lambda>x. description x \<noteq> []) rs of
                    Some x \<Rightarrow> Some (description x) | None \<Rightarrow> None),
          lookup_error = None\<rparr>"
    by (intro httpsAnswers_loop_fallback [of reply2 _ start2 rs None]) simp_all
  with h show "findHttpsRecordInDnsMessage reply2 =
        \<lparr>lookup_found = False,
         lookup_record = (case find (\<lambda>y. description y \<noteq> []) rs of
                            Some y \<Rightarrow> Some (description y) | None \<Rightarrow> None),
         lookup_error = None\<rparr>"
    by (simp add: findHttpsRecordInDnsMessage_def)
qed

theorem https_record_ech_detection_witness:
  "parseHttpsSvcbRecord example_ech_message 23 9 =
     Inr \<lparr>has_ech = True,
          description = ascii ''priority=1 target=. params=[key5(2B)] echconfig(base64)=3q0=''\<rparr> \<and>
   bytesToBase64 [0xDE, 0xAD] = ascii ''3q0='' \<and>
   findHttpsRecordInDnsMessage example_ech_message =
     \<lparr>lookup_found = True,
      lookup_record =
        Some (ascii ''priority=1 target=. params=[key5(2B)] echconfig(base64)=3q0=''),
      lookup_error = None\<rparr> \<and>
   findHttpsRecordInDnsMessage example_alias_message =
     \<lparr>lookup_found = False, lookup_record = Some (ascii ''priority=1 target=a''),
      lookup_error = None\<rparr>"
proof -
  let ?r = "\<lparr>has_ech = True,
          description = ascii ''priority=1 target=. params=[key5(2B)] echconfig(base64)=3q0=''\<rparr>"
  let ?a = "\<lparr>has_ech = False, description = []\<rparr>"
  let ?b = "\<lparr>has_ech = False, description = ascii ''priority=1 target=a''\<rparr>"
  have a1: "23 + 9 \<le> length example_ech_message" "(4::nat) \<le> 9"
    by (simp_all add: example_ech_message_def)
  have a2: "readDnsName example_ech_message (23 + 2) = Inr \<lparr>name = [], consumed = 1\<rparr>"
    by code_simp
  have a3: "parseHttpsSvcbRecord example_ech_message 23 9 = Inr ?r"
    by code_simp
  have b1: "12 \<le> length example_ech_message"
    by (simp add: example_ech_message_def)
  have b2: "skipQuestions example_ech_message (getUint16 example_ech_message 4) 12 = Inr 12"
    by code_simp
  have b3: "httpsAnswers example_ech_message (getUint16 example_ech_message 6) 12
              = map Inr [] @ Inr ?r # []"
    by code_simp
  have c1: "12 \<le> length example_alias_message"
    by (simp add: example_alias_message_def)
  have c2: "skipQuestions example_alias_message (getUint16 example_alias_message 4) 12 = Inr 12"
    by code_simp
  have c3: "httpsAnswers example_alias_message (getUint16 example_alias_message 6) 12
              = map Inr [?a, ?b]"
    by code_simp
  have d: "bytesToBase64 [0xDE, 0xAD] = ascii ''3q0=''"
    by code_simp
  have e: "ascii ''priority=1 target=a'' \<noteq> []"
    by (simp add: ascii_def)
  from https_record_ech_detection [of 23 9 example_ech_message "\<lparr>name = [], consumed = 1\<rparr>" ?r
      example_ech_message 12 "[]" ?r "[]" example_alias_message 12 "[?a, ?b]"]
    a1 a2 a3 b1 b2 b3 c1 c2 c3 d e
  show ?thesis by simp
qed

text \<open>
  C6 as stated fails for the fallback: in a message whose first HTTPS answer is the
  three-byte record with priority 0 and the root as target, and whose second HTTPS
  answer has priority 1 and target \<open>a\<close>, neither with ECH, the record returned is the
  second one, not the first HTTPS record seen.
\<close>

theorem https_fallback_counterexample:
  "httpsAnswers example_alias_message (getUint16 example_alias_message 6) 12 =
     [Inr \<lparr>has_ech = False, description = []\<rparr>,
      Inr \<lparr>has_ech = False, description = ascii ''priority=1 target=a''\<rparr>] \<and>
   parseHttpsSvcbRecord example_alias_message 37 5 =
     Inr \<lparr>has_ech = False, description = ascii ''priority=1 target=a''\<rparr> \<and>
   lookup_record (findHttpsRecordInDnsMessage example_alias_message) =
     Some (ascii ''priority=1 target=a'')"
  by code_simp

section \<open>Properties of the record-type mapping\<close>

lemma toUpperCase_digits: "isDigits s \<Longrightarrow> toUpperCase s = s"
  by (induction s) (auto simp: isDigits_def toUpperCase_def upperUnit_def)

lemma digits_not_named:
  assumes "isDigits s"
  shows "toUpperCase s \<noteq> ascii ''A''" "toUpperCase s \<noteq> ascii ''AAAA''"
    "toUpperCase s \<noteq> ascii ''HTTPS''"
  using assms toUpperCase_digits [OF assms]
  by (auto simp: isDigits_def ascii_def)

lemma bitLength_lower: "0 < n \<Longrightarrow> 2 ^ (bitLength n - 1) \<le> n"
proof (induction n rule: bitLength.induct)
  case (1 n)
  show ?case
  proof (cases "n div 2 = 0")
    case True
    with 1(2) have "n = 1" by presburger
    then show ?thesis by (simp add: bitLength.simps)
  next
    case False
    then have pos: "0 < n div 2" by simp
    with 1 have ih: "2 ^ (bitLength (n div 2) - 1) \<le> n div 2" by simp
    from pos have "0 < bitLength (n div 2)" by (simp add: bitLength.simps [of "n div 2"])
    then have "bitLength n - 1 = Suc (bitLength (n div 2) - 1)"
      using 1(2) by (simp add: bitLength.simps [of n])
    then have "(2::nat) ^ (bitLength n - 1) = 2 * 2 ^ (bitLength (n div 2) - 1)" by simp
    also have "\<dots> \<le> 2 * (n div 2)" using ih by simp
    also have "\<dots> \<le> n" by presburger
    finally show ?thesis .
  qed
qed

lemma toDouble_cases:
  "toDouble n = PosInfinity \<or> (\<exists>q. toDouble n = Finite q \<and> (0 < q \<longleftrightarrow> 0 < n))"
proof (cases "2 ^ 1024 - 2 ^ 970 \<le> n")
  case True
  then show ?thesis by (simp add: toDouble_def)
next
  case False
  note small = this
  show ?thesis
  proof (cases "bitLength n \<le> 53")
    case True
    with small show ?thesis by (simp add: toDouble_def)
  next
    case False
    then have len: "53 < bitLength n" by simp
    then have pos: "0 < n" by (cases "n = 0") (simp_all add: bitLength.simps [of 0])
    have "(2::nat) ^ (bitLength n - 53) \<le> 2 ^ (bitLength n - 1)"
      by (rule power_increasing) simp_all
    also have "\<dots> \<le> n" using pos by (rule bitLength_lower)
    finally have q: "0 < n div 2 ^ (bitLength n - 53)"
      by (simp add: div_greater_zero_iff)
    define ulp :: nat where "ulp = 2 ^ (bitLength n - 53)"
    define rounded where
      "rounded = (if ulp < 2 * (n mod ulp) \<or> (2 * (n mod ulp) = ulp \<and> odd (n div ulp))
                  then n div ulp + 1 else n div ulp) * ulp"
    have "0 < ulp" by (simp add: ulp_def)
    with q have r: "0 < rounded" by (simp add: rounded_def ulp_def)
    from small False have "toDouble n = Finite (of_nat rounded)"
      by (simp add: toDouble_def Let_def rounded_def ulp_def)
    with r pos show ?thesis by simp
  qed
qed

lemma dropWhile_zeros:
  "dropWhile (\<lambda>c. c = 48) (replicate k (48::nat) @ ys) = dropWhile (\<lambda>c. c = 48) ys"
  by (induction k) simp_all

lemma digitsValue_zeros:
  "foldl (\<lambda>acc c. 10 * acc + (c - 48)) a (replicate k (48::nat)) = a * 10 ^ k"
  by (induction k arbitrary: a) simp_all

lemma example_huge_token_digits:
  "isDigits example_huge_token" "significantDigits example_huge_token = 1"
  "digitsValue example_huge_token = 10 ^ 309"
  by (simp_all add: example_huge_token_def isDigits_def significantDigits_def digitsValue_def
      ascii_def list_all_iff digitsValue_zeros dropWhile_zeros)

lemma example_huge_token_number: "numberOfDigits example_huge_token = Some PosInfinity"
  by (simp add: numberOfDigits_def example_huge_token_digits toDouble_def)

text \<open>
  C9 (as the code has it). The token is compared after upper-casing, so \<open>A\<close>, \<open>AAAA\<close>
  and \<open>HTTPS\<close> in any letter case map to 1, 28 and 65. Any other token is passed
  through as the number \<open>Number\<close> makes of it exactly when that number is finite and
  positive, and raises \<open>UnsupportedRecordType\<close> for the token otherwise. For a string
  of decimal digits (of at most 20 significant digits) this means: it is passed through
  exactly when its value is positive and the double-precision number of that value is
  finite, and it is refused exactly when its value is 0 or that number is \<open>Infinity\<close>.
\<close>

theorem recordTypeToNumber_mapping:
  "recordTypeToNumber numeric (ascii ''A'') = Inr 1 \<and>
   recordTypeToNumber numeric (ascii ''AAAA'') = Inr 28 \<and>
   recordTypeToNumber numeric (ascii ''HTTPS'') = Inr 65 \<and>
   (toUpperCase t = ascii ''A'' \<longrightarrow> recordTypeToNumber numeric t = Inr 1) \<and>
   (toUpperCase t = ascii ''AAAA'' \<longrightarrow> recordTypeToNumber numeric t = Inr 28) \<and>
   (toUpperCase t = ascii ''HTTPS'' \<longrightarrow> recordTypeToNumber numeric t = Inr 65) \<and>
   (toUpperCase t \<noteq> ascii ''A'' \<and> toUpperCase t \<noteq> ascii ''AAAA'' \<and>
    toUpperCase t \<noteq> ascii ''HTTPS'' \<longrightarrow>
      (\<forall>q. recordTypeToNumber numeric t = Inr q \<longleftrightarrow> numeric = Finite q \<and> 0 < q) \<and>
      (\<forall>e. recordTypeToNumber numeric t = Inl e \<longleftrightarrow>
            e = UnsupportedRecordType t \<and> \<not> (\<exists>q. numeric = Finite q \<and> 0 < q))) \<and>
   (numberOfDigits t = Some numeric \<longrightarrow>
      (\<forall>q. recordTypeToNumber numeric t = Inr q \<longleftrightarrow> 0 < digitsValue t \<and> numeric = Finite q) \<and>
      (recordTypeToNumber numeric t = Inl (UnsupportedRecordType t) \<longleftrightarrow>
         digitsValue t = 0 \<or> numeric = PosInfinity))"
proof -
  have named: "recordTypeToNumber numeric (ascii ''A'') = Inr 1"
    "recordTypeToNumber numeric (ascii ''AAAA'') = Inr 28"
    "recordTypeToNumber numeric (ascii ''HTTPS'') = Inr 65"
    by (simp_all add: recordTypeToNumber_def toUpperCase_def upperUnit_def ascii_def)
  have upper: "toUpperCase t = ascii ''A'' \<longrightarrow> recordTypeToNumber numeric t = Inr 1"
    "toUpperCase t = ascii ''AAAA'' \<longrightarrow> recordTypeToNumber numeric t = Inr 28"
    "toUpperCase t = ascii ''HTTPS'' \<longrightarrow> recordTypeToNumber numeric t = Inr 65"
    by (simp_all add: recordTypeToNumber_def ascii_def)
  have other: "toUpperCase t \<noteq> ascii ''A'' \<and> toUpperCase t \<noteq> ascii ''AAAA'' \<and>
    toUpperCase t \<noteq> ascii ''HTTPS'' \<longrightarrow>
      (\<forall>q. recordTypeToNumber numeric t = Inr q \<longleftrightarrow> numeric = Finite q \<and> 0 < q) \<and>
      (\<forall>e. recordTypeToNumber numeric t = Inl e \<longleftrightarrow>
            e = UnsupportedRecordType t \<and> \<not> (\<exists>q. numeric = Finite q \<and> 0 < q))"
    by (cases numeric) (auto simp: recordTypeToNumber_def)
  have digits: "numberOfDigits t = Some numeric \<longrightarrow>
      (\<forall>q. recordTypeToNumber numeric t = Inr q \<longleftrightarrow> 0 < digitsValue t \<and> numeric = Finite q) \<and>
      (recordTypeToNumber numeric t = Inl (UnsupportedRecordType t) \<longleftrightarrow>
         digitsValue t = 0 \<or> numeric = PosInfinity)"
  proof
    assume n: "numberOfDigits t = Some numeric"
    then have d: "isDigits t" and v: "numeric = toDouble (digitsValue t)"
      by (auto simp: numberOfDigits_def split: if_splits)
    from toDouble_cases [of "digitsValue t"] v
    have c: "numeric = PosInfinity \<or> (\<exists>q. numeric = Finite q \<and> (0 < q \<longleftrightarrow> 0 < digitsValue t))"
      by simp
    from digits_not_named [OF d] c
    show "(\<forall>q. recordTypeToNumber numeric t = Inr q \<longleftrightarrow> 0 < digitsValue t \<and> numeric = Finite q) \<and>
      (recordTypeToNumber numeric t = Inl (UnsupportedRecordType t) \<longleftrightarrow>
         digitsValue t = 0 \<or> numeric = PosInfinity)"
      by (auto simp: recordTypeToNumber_def)
  qed
  from named upper other digits show ?thesis by blast
qed

theorem recordTypeToNumber_mapping_witness:
  "recordTypeToNumber NaN (ascii ''A'') = Inr 1 \<and>
   toUpperCase (ascii ''aaaa'') = ascii ''AAAA'' \<and>
   recordTypeToNumber NaN (ascii ''aaaa'') = Inr 28 \<and>
   toUpperCase (ascii ''Https'') = ascii ''HTTPS'' \<and>
   recordTypeToNumber NaN (ascii ''Https'') = Inr 65 \<and>
   numberOfDigits (ascii ''65'') = Some (Finite 65) \<and>
   recordTypeToNumber (Finite 65) (ascii ''65'') = Inr 65 \<and>
   numberOfDigits (ascii ''0'') = Some (Finite 0) \<and>
   recordTypeToNumber (Finite 0) (ascii ''0'') = Inl (UnsupportedRecordType (ascii ''0'')) \<and>
   numberOfDigits (ascii ''MX'') = None \<and>
   recordTypeToNumber NaN (ascii ''MX'') = Inl (UnsupportedRecordType (ascii ''MX''))"
proof -
  have up: "toUpperCase (ascii ''A'') = ascii ''A''"
    "toUpperCase (ascii ''aaaa'') = ascii ''AAAA''"
    "toUpperCase (ascii ''Https'') = ascii ''HTTPS''"
    by (simp_all add: toUpperCase_def upperUnit_def ascii_def)
  have d: "numberOfDigits (ascii ''65'') = Some (Finite 65)"
    "numberOfDigits (ascii ''0'') = Some (Finite 0)"
    "numberOfDigits (ascii ''MX'') = None"
    "digitsValue (ascii ''65'') = 65" "digitsValue (ascii ''0'') = 0"
    by (simp_all add: numberOfDigits_def isDigits_def significantDigits_def digitsValue_def
        toDouble_def bitLength.simps ascii_def)
  have o: "toUpperCase (ascii ''MX'') \<noteq> ascii ''A''"
    "toUpperCase (ascii ''MX'') \<noteq> ascii ''AAAA''"
    "toUpperCase (ascii ''MX'') \<noteq> ascii ''HTTPS''"
    by (simp_all add: toUpperCase_def upperUnit_def ascii_def)
  from recordTypeToNumber_mapping [of NaN "ascii ''A''"]
    recordTypeToNumber_mapping [of NaN "ascii ''aaaa''"]
    recordTypeToNumber_mapping [of NaN "ascii ''Https''"]
    recordTypeToNumber_mapping [of "Finite 65" "ascii ''65''"]
    recordTypeToNumber_mapping [of "Finite 0" "ascii ''0''"]
    recordTypeToNumber_mapping [of NaN "ascii ''MX''"]
    up d o
  show ?thesis by simp
qed

text \<open>
  C9 as stated fails in both directions. Tokens that differ from the three names only
  in letter case are neither one of the three tokens nor positive integer strings, and
  they are mapped, not refused: \<open>a\<close> gives 1 and \<open>https\<close> gives 65 (\<open>Number\<close> makes
  \<open>NaN\<close> of both, and is not consulted). A positive integer string is refused when
  \<open>Number\<close> makes \<open>Infinity\<close> of it, as of the digit \<open>1\<close> followed by 309 zeros. And a
  token that is no integer string is passed through when \<open>Number\<close> makes a positive
  number of it, as it makes 1.5 of \<open>1.5\<close>.
\<close>

theorem recordTypeToNumber_mapping_counterexample:
  "ascii ''a'' \<noteq> ascii ''A'' \<and> \<not> isDigits (ascii ''a'') \<and>
   recordTypeToNumber NaN (ascii ''a'') = Inr 1 \<and>
   recordTypeToNumber NaN (ascii ''https'') = Inr 65 \<and>
   isDigits example_huge_token \<and> 0 < digitsValue example_huge_token \<and>
   numberOfDigits example_huge_token = Some PosInfinity \<and>
   recordTypeToNumber PosInfinity example_huge_token =
     Inl (UnsupportedRecordType example_huge_token) \<and>
   \<not> isDigits (ascii ''1.5'') \<and>
   recordTypeToNumber (Finite (3 / 2)) (ascii ''1.5'') = Inr (3 / 2)"
proof -
  have named: "ascii ''a'' \<noteq> ascii ''A''" "\<not> isDigits (ascii ''a'')"
    "recordTypeToNumber NaN (ascii ''a'') = Inr 1"
    "recordTypeToNumber NaN (ascii ''https'') = Inr 65"
    by (simp_all add: recordTypeToNumber_def toUpperCase_def upperUnit_def isDigits_def ascii_def)
  have huge: "recordTypeToNumber PosInfinity example_huge_token =
      Inl (UnsupportedRecordType example_huge_token)"
    using digits_not_named [OF example_huge_token_digits(1)]
    by (simp add: recordTypeToNumber_def)
  have fraction: "\<not> isDigits (ascii ''1.5'')"
    "recordTypeToNumber (Finite (3 / 2)) (ascii ''1.5'') = Inr (3 / 2)"
    by (simp_all add: recordTypeToNumber_def toUpperCase_def upperUnit_def isDigits_def ascii_def)
  from named huge fraction example_huge_token_digits example_huge_token_number
  show ?thesis by simp
qed

section \<open>Properties of the query executor\<close>

lemma dohResponseResult_mode: "mode (dohResponseResult ext m latency resp) = m"
  by (simp add: dohResponseResult_def dohRequestFailed_def Let_def split: sum.splits)

lemma dohResponseResult_ok_ips:
  "ok (dohResponseResult ext m latency resp) \<Longrightarrow> ips (dohResponseResult ext m latency resp) \<noteq> []"
  by (auto simp: dohResponseResult_def dohRequestFailed_def Let_def split: sum.splits if_splits)

lemma performDohRequest_mode:
  "mode (fst (performDohRequest ext endpoint qname recordType timeout m client)) = m"
  by (simp add: performDohRequest_def dohRequestFailed_def dohResponseResult_mode Let_def
      split: sum.splits prod.splits)

lemma performDohRequest_ok_ips:
  "ok (fst (performDohRequest ext endpoint qname recordType timeout m client)) \<Longrightarrow>
   ips (fst (performDohRequest ext endpoint qname recordType timeout m client)) \<noteq> []"
  by (auto simp: performDohRequest_def dohRequestFailed_def Let_def
      split: sum.splits prod.splits dest: dohResponseResult_ok_ips)


lemma fetchDohAnswer_unfold:
  assumes j: "performDohRequest ext endpoint qname recordType timeout ModeJson client = (j, c1)"
    and w: "performDohRequest ext endpoint qname recordType timeout ModeWire c1 = (w, c2)"
  shows "fetchDohAnswer ext endpoint qname recordType timeout client =
     ((case find ok [j, w] of
         Some successful \<Rightarrow> summarizeDohModeResult successful [j, w]
       | None \<Rightarrow> combineDohFailures [j, w])
        \<lparr>attempted_formats := map mode [j, w], mode_results := Some [j, w]\<rparr>, c2)"
  using j w by (simp add: fetchDohAnswer_def Let_def)




text \<open>
  C10. Every error of an attempt (a URL that cannot be built, a \<open>fetch\<close> that fails or
  times out, a body that cannot be read or decoded) is caught inside
  \<open>performDohRequest\<close> and becomes a failed attempt, so the query of a provider always
  yields a result, for every endpoint and every behaviour of the network, and the
  settled entry \<open>runDohCheck\<close> receives for it is fulfilled with that result. This
  result has \<open>attempted_formats = [json, wire]\<close>, which is not empty, also when both
  attempts failed outright; and when it is ok its list of addresses is not empty. The
  same implication holds for every single attempt.
\<close>

theorem provider_result_invariant:
  "attempted_formats (settledDetails (Fulfilled
      (fst (fetchDohAnswer ext endpoint qname recordType timeout client))))
     = [ModeJson, ModeWire] \<and>
   attempted_formats (settledDetails (Fulfilled
      (fst (fetchDohAnswer ext endpoint qname recordType timeout client)))) \<noteq> [] \<and>
   (ok (settledDetails (Fulfilled
      (fst (fetchDohAnswer ext endpoint qname recordType timeout client)))) \<longrightarrow>
    ips (settledDetails (Fulfilled
      (fst (fetchDohAnswer ext endpoint qname recordType timeout client)))) \<noteq> []) \<and>
   (ok (fst (performDohRequest ext endpoint qname recordType timeout m client)) \<longrightarrow>
    ips (fst (performDohRequest ext endpoint qname recordType timeout m client)) \<noteq> [])"
proof -
  obtain j c1 where pj:
    "performDohRequest ext endpoint qname recordType timeout ModeJson client = (j, c1)"
    by (cases "performDohRequest ext endpoint qname recordType timeout ModeJson client")
  obtain w c2 where pw:
    "performDohRequest ext endpoint qname recordType timeout ModeWire c1 = (w, c2)"
    by (cases "performDohRequest ext endpoint qname recordType timeout ModeWire c1")
  let ?r = "fst (fetchDohAnswer ext endpoint qname recordType timeout client)"
  note unf = fetchDohAnswer_unfold [OF pj pw]
  have okj: "ok j \<Longrightarrow> ips j \<noteq> []"
    using performDohRequest_ok_ips [of ext endpoint qname recordType timeout ModeJson client] pj
    by simp
  have okw: "ok w \<Longrightarrow> ips w \<noteq> []"
    using performDohRequest_ok_ips [of ext endpoint qname recordType timeout ModeWire c1] pw
    by simp
  have mj: "mode j = ModeJson"
    using performDohRequest_mode [of ext endpoint qname recordType timeout ModeJson client] pj
    by simp
  have mw: "mode w = ModeWire"
    using performDohRequest_mode [of ext endpoint qname recordType timeout ModeWire c1] pw
    by simp
  have a: "attempted_formats ?r = [ModeJson, ModeWire]"
    by (simp add: unf mj mw)
  have b: "ok ?r \<longrightarrow> ips ?r \<noteq> []"
    using okj okw
    by (auto simp: unf summarizeDohModeResult_def combineDohFailures_def Let_def)
  have c: "ok (fst (performDohRequest ext endpoint qname recordType timeout m client)) \<longrightarrow>
    ips (fst (performDohRequest ext endpoint qname recordType timeout m client)) \<noteq> []"
    using performDohRequest_ok_ips by blast
  from a b c show ?thesis
    by (simp add: settledDetails_def)
qed

theorem provider_result_invariant_witness:
  "ok (settledDetails (Fulfilled (fst (fetchDohAnswer example_externals
        (ascii ''https://doh.example/q'') (ascii ''example.com'') (ascii ''A'') 5000
        example_client)))) \<and>
   ips (settledDetails (Fulfilled (fst (fetchDohAnswer example_externals
        (ascii ''https://doh.example/q'') (ascii ''example.com'') (ascii ''A'') 5000
        example_client)))) \<noteq> [] \<and>
   attempted_formats (settledDetails (Fulfilled (fst (fetchDohAnswer example_externals
        (ascii ''https://doh.example/q'') (ascii ''example.com'') (ascii ''A'') 5000
        example_client)))) = [ModeJson, ModeWire] \<and>
   ok (fst (performDohRequest example_externals (ascii ''https://doh.example/q'')
        (ascii ''example.com'') (ascii ''A'') 5000 ModeWire example_client)) \<and>
   ips (fst (performDohRequest example_externals (ascii ''https://doh.example/q'')
        (ascii ''example.com'') (ascii ''A'') 5000 ModeWire example_client))
     = [ascii ''93.184.216.34''] \<and>
   \<not> ok (settledDetails (Fulfilled (fst (fetchDohAnswer example_externals
        (ascii ''https://doh.example/q'') (ascii ''example.com'') (ascii ''A'') 5000
        example_failing_client)))) \<and>
   attempted_formats (settledDetails (Fulfilled (fst (fetchDohAnswer example_externals
        (ascii ''https://doh.example/q'') (ascii ''example.com'') (ascii ''A'') 5000
        example_failing_client)))) = [ModeJson, ModeWire]"
proof -
  have okr: "ok (settledDetails (Fulfilled (fst (fetchDohAnswer example_externals
        (ascii ''https://doh.example/q'') (ascii ''example.com'') (ascii ''A'') 5000
        example_client))))"
    by code_simp
  have okw: "ok (fst (performDohRequest example_externals (ascii ''https://doh.example/q'')
        (ascii ''example.com'') (ascii ''A'') 5000 ModeWire example_client))"
    by code_simp
  have ipw: "ips (fst (performDohRequest example_externals (ascii ''https://doh.example/q'')
        (ascii ''example.com'') (ascii ''A'') 5000 ModeWire example_client))
     = [ascii ''93.184.216.34'']"
    by code_simp
  have failed: "\<not> ok (settledDetails (Fulfilled (fst (fetchDohAnswer example_externals
        (ascii ''https://doh.example/q'') (ascii ''example.com'') (ascii ''A'') 5000
        example_failing_client))))"
    by code_simp
  from okr okw ipw failed
    provider_result_invariant [of example_externals "ascii ''https://doh.example/q''"
      "ascii ''example.com''" "ascii ''A''" 5000 example_client ModeWire]
    provider_result_invariant [of example_externals "ascii ''https://doh.example/q''"
      "ascii ''example.com''" "ascii ''A''" 5000 example_failing_client ModeWire]
  show ?thesis by blast
qed





end
